theory Spec2Isabelle
  imports
    Main
    "HOL-Library.Multiset"
    "HOL-Library.Option_ord"
    "HOL-Library.List_Lexorder"
    "HOL-Library.Char_ord"
begin

section \<open>The relational schema read by app.py\<close>

text \<open>
  Modelled from the spec: the schema of the database file \<^verbatim>\<open>CCL_ecommerce.db\<close>, which
  app.py opens but which is not part of the repository. The spec lists six tables and
  the columns the statements of app.py read. A key column (the first column of orders,
  products, payments and payment_methods) is an integer and never NULL; every other
  column is nullable, \<open>None\<close> standing for SQL NULL. Text columns are byte strings
  compared bytewise (the BINARY collation), which is the lexicographic order on
  \<open>string\<close>; NULL sorts before every value, which is the order on \<open>option\<close>. Rows are
  kept in table order. The REAL and BLOB storage classes are not modelled.
\<close>

record order_row =
  order_id :: int
  order_date :: "string option"

record product_row =
  product_id :: int
  product_name :: "string option"

record stock_row =
  stock_product_id :: "int option"
  quantity :: "int option"

record order_detail_row =
  detail_order_id :: "int option"
  detail_product_id :: "int option"
  quantity_ordered :: "int option"

record payment_row =
  payment_id :: int
  payment_method_id :: "int option"

record payment_method_row =
  method_id :: int
  method_name :: "string option"

record tables =
  orders :: "order_row list"
  products :: "product_row list"
  stock_level :: "stock_row list"
  order_details :: "order_detail_row list"
  payments :: "payment_row list"
  payment_methods :: "payment_method_row list"

section \<open>The SQL operators used by the five statements\<close>

text \<open>
  An error of sqlite3: an \<^verbatim>\<open>OperationalError\<close> with its message, or the \<^verbatim>\<open>OperationalError\<close>
  raised when a TEXT value cannot be decoded as UTF-8, with the name of the column and
  the value (the wording of its message is not modelled).
\<close>

datatype sqlite_error = OperationalError string | Could_not_decode string string

text \<open>\<^verbatim>\<open>a JOIN b ON cond\<close>: the pairs of rows that satisfy the condition.\<close>

definition inner_join :: "'a list \<Rightarrow> 'b list \<Rightarrow> ('a \<Rightarrow> 'b \<Rightarrow> bool) \<Rightarrow> ('a \<times> 'b) list" where
  "inner_join xs ys on = concat (map (\<lambda>x. map (Pair x) (filter (on x) ys)) xs)"

text \<open>\<^verbatim>\<open>GROUP BY key\<close>: one group per distinct key, NULL being a key like any other.\<close>

definition group_by :: "('a \<Rightarrow> 'k) \<Rightarrow> 'a list \<Rightarrow> ('k \<times> 'a list) list" where
  "group_by key rows =
     map (\<lambda>k. (k, filter (\<lambda>r. key r = k) rows)) (remdups (map key rows))"

text \<open>
  \<^verbatim>\<open>ORDER BY key\<close> where no two rows have the same key, as in a statement that orders
  its groups by the key of the groups: the rows sorted by their keys.
\<close>

definition order_by_asc :: "('a \<Rightarrow> 'k::linorder) \<Rightarrow> 'a list \<Rightarrow> 'a list" where
  "order_by_asc key rows = sort_key key rows"

text \<open>
  SQL does not define the order of rows that have the same key under \<^verbatim>\<open>ORDER BY\<close>: it is
  the engine's. Before the sort, which is stable, the engine holds the rows of the
  unsorted result in an order of its own: a tie order gives, for a result of \<open>n\<close> rows,
  the positions \<open>0\<close> to \<open>n - 1\<close> in that order. Every order of the rows is the engine's
  for some tie order, and so is every sorted result (\<open>every_order_is_an_engine_order\<close>,
  \<open>every_descending_order_is_a_result\<close>, \<open>every_ascending_order_is_a_result\<close> below).
\<close>

type_synonym tie_order = "nat \<Rightarrow> nat list"

definition engine_order :: "tie_order \<Rightarrow> 'a list \<Rightarrow> 'a list" where
  "engine_order tie rows =
     (let positions = tie (length rows)
      in if sort positions = [0..<length rows] then map (\<lambda>i. rows ! i) positions
         else rows)"

text \<open>\<^verbatim>\<open>ORDER BY key ASC\<close>, \<^verbatim>\<open>ORDER BY key DESC\<close> and \<^verbatim>\<open>LIMIT n\<close>.\<close>

definition order_by_asc_ties ::
  "tie_order \<Rightarrow> ('a \<Rightarrow> 'k::linorder) \<Rightarrow> 'a list \<Rightarrow> 'a list" where
  "order_by_asc_ties tie key rows = sort_key key (engine_order tie rows)"

definition order_by_desc ::
  "tie_order \<Rightarrow> ('a \<Rightarrow> 'k::linorder) \<Rightarrow> 'a list \<Rightarrow> 'a list" where
  "order_by_desc tie key rows = rev (sort_key key (engine_order tie rows))"

definition limit :: "nat \<Rightarrow> 'a list \<Rightarrow> 'a list" where
  "limit n rows = take n rows"

text \<open>\<^verbatim>\<open>COUNT(col)\<close> counts the values that are not NULL.\<close>

definition sql_count :: "'a option list \<Rightarrow> int" where
  "sql_count vs = int (length (filter (\<lambda>v. v \<noteq> None) vs))"

text \<open>\<^verbatim>\<open>MIN(col)\<close> and \<^verbatim>\<open>MAX(col)\<close> skip NULL and are NULL when no value is left.\<close>

fun sql_min :: "'a::linorder option list \<Rightarrow> 'a option" where
  "sql_min [] = None"
| "sql_min (None # vs) = sql_min vs"
| "sql_min (Some v # vs) = (case sql_min vs of None \<Rightarrow> Some v | Some m \<Rightarrow> Some (min v m))"

fun sql_max :: "'a::linorder option list \<Rightarrow> 'a option" where
  "sql_max [] = None"
| "sql_max (None # vs) = sql_max vs"
| "sql_max (Some v # vs) = (case sql_max vs of None \<Rightarrow> Some v | Some m \<Rightarrow> Some (max v m))"

text \<open>
  \<^verbatim>\<open>SUM(col)\<close> over an INTEGER column skips NULL, is NULL when no value is left, and
  raises "integer overflow" as soon as the running total leaves the signed 64-bit range.
\<close>

definition int64_range :: "int \<Rightarrow> bool" where
  "int64_range n \<longleftrightarrow> - (2 ^ 63) \<le> n \<and> n < 2 ^ 63"

fun sum_from :: "int option \<Rightarrow> int option list \<Rightarrow> sqlite_error + int option" where
  "sum_from acc [] = Inr acc"
| "sum_from acc (None # vs) = sum_from acc vs"
| "sum_from acc (Some v # vs) =
     (let running = (case acc of None \<Rightarrow> 0 | Some a \<Rightarrow> a) + v
      in if int64_range running then sum_from (Some running) vs
         else Inl (OperationalError ''integer overflow''))"

definition sql_sum :: "int option list \<Rightarrow> sqlite_error + int option" where
  "sql_sum vs = sum_from None vs"

text \<open>The rows of a result, or the first error raised while computing one of them.\<close>

fun collect :: "('e + 'a) list \<Rightarrow> 'e + 'a list" where
  "collect [] = Inr []"
| "collect (Inl e # rs) = Inl e"
| "collect (Inr v # rs) = (case collect rs of Inl e \<Rightarrow> Inl e | Inr vs \<Rightarrow> Inr (v # vs))"

text \<open>
  \<^verbatim>\<open>cursor.fetchall()\<close> turns each TEXT value into a \<^verbatim>\<open>str\<close>, decoding it as UTF-8, row by
  row and column by column, and raises at the first value that is not well-formed UTF-8:
  a byte up to 7F; C2 to DF and one continuation byte (80 to BF); E0 to EF and two; F0 to
  F4 and three, without overlong forms, surrogates and code points above 10FFFF.
\<close>

definition continuation :: "nat \<Rightarrow> bool" where
  "continuation b \<longleftrightarrow> 128 \<le> b \<and> b \<le> 191"

fun well_formed_utf8 :: "nat list \<Rightarrow> bool" where
  "well_formed_utf8 [] = True"
| "well_formed_utf8 [a] = (a \<le> 127)"
| "well_formed_utf8 [a, b] =
     (if a \<le> 127 then b \<le> 127 else 194 \<le> a \<and> a \<le> 223 \<and> continuation b)"
| "well_formed_utf8 [a, b, c] =
     (if a \<le> 127 then well_formed_utf8 [b, c]
      else if 194 \<le> a \<and> a \<le> 223 then continuation b \<and> c \<le> 127
      else 224 \<le> a \<and> a \<le> 239 \<and>
           (if a = 224 then 160 \<le> b \<and> b \<le> 191
            else if a = 237 then 128 \<le> b \<and> b \<le> 159 else continuation b) \<and>
           continuation c)"
| "well_formed_utf8 (a # b # c # d # bs) =
     (if a \<le> 127 then well_formed_utf8 (b # c # d # bs)
      else if 194 \<le> a \<and> a \<le> 223 then continuation b \<and> well_formed_utf8 (c # d # bs)
      else if 224 \<le> a \<and> a \<le> 239 then
           (if a = 224 then 160 \<le> b \<and> b \<le> 191
            else if a = 237 then 128 \<le> b \<and> b \<le> 159 else continuation b) \<and>
           continuation c \<and> well_formed_utf8 (d # bs)
      else 240 \<le> a \<and> a \<le> 244 \<and>
           (if a = 240 then 144 \<le> b \<and> b \<le> 191
            else if a = 244 then 128 \<le> b \<and> b \<le> 143 else continuation b) \<and>
           continuation c \<and> continuation d \<and> well_formed_utf8 bs)"

definition decodable :: "string \<Rightarrow> bool" where
  "decodable s = well_formed_utf8 (map of_char s)"

text \<open>The first TEXT value, among columns given with their names, that is not decodable.\<close>

fun first_undecodable :: "(string \<times> string option) list \<Rightarrow> sqlite_error option" where
  "first_undecodable [] = None"
| "first_undecodable ((column, None) # values) = first_undecodable values"
| "first_undecodable ((column, Some s) # values) =
     (if decodable s then first_undecodable values else Some (Could_not_decode column s))"

text \<open>
  The result of a SELECT statement that has been executed, as \<^verbatim>\<open>fetchall\<close> will find it:
  rows, or the error of the first value that cannot be decoded.
\<close>

datatype 'r pending = Rows "'r list" | Undecodable sqlite_error

definition fetch_rows :: "('r \<Rightarrow> (string \<times> string option) list) \<Rightarrow> 'r list \<Rightarrow> 'r pending" where
  "fetch_rows texts rows =
     (case first_undecodable (concat (map texts rows)) of
        None \<Rightarrow> Rows rows
      | Some e \<Rightarrow> Undecodable e)"

section \<open>The five SQL statements of app.py\<close>

text \<open>
  A statement handed to \<^verbatim>\<open>cursor.execute\<close> either reads (SELECT: for a tie order of the
  engine and a content of the tables, an error raised by \<^verbatim>\<open>execute\<close> or the result that
  \<^verbatim>\<open>fetchall\<close> will find) or writes (INSERT, UPDATE, DELETE: a new content of the tables
  and no row).
\<close>

datatype 'r sql =
  Select "tie_order \<Rightarrow> tables \<Rightarrow> sqlite_error + 'r pending"
| Write "tables \<Rightarrow> tables"

text \<open>\<^verbatim>\<open>SELECT MIN(order_date), MAX(order_date) FROM orders;\<close>\<close>

definition date_range_rows :: "tables \<Rightarrow> (string option \<times> string option) list" where
  "date_range_rows t =
     [(sql_min (map order_date (orders t)), sql_max (map order_date (orders t)))]"

definition date_range_query :: "(string option \<times> string option) sql" where
  "date_range_query =
     Select (\<lambda>tie t. Inr (fetch_rows
       (\<lambda>(first, last). [(''MIN(order_date)'', first), (''MAX(order_date)'', last)])
       (date_range_rows t)))"

text \<open>
  \<^verbatim>\<open>SELECT order_date, COUNT(order_id) AS num_orders FROM orders
  GROUP BY order_date ORDER BY order_date;\<close>
\<close>

definition orders_over_time_rows :: "tables \<Rightarrow> (string option \<times> int) list" where
  "orders_over_time_rows t =
     order_by_asc fst
       (map (\<lambda>(d, g). (d, sql_count (map (\<lambda>r. Some (order_id r)) g)))
            (group_by order_date (orders t)))"

definition orders_over_time_query :: "(string option \<times> int) sql" where
  "orders_over_time_query =
     Select (\<lambda>tie t. Inr (fetch_rows (\<lambda>(d, n). [(''order_date'', d)])
       (orders_over_time_rows t)))"

text \<open>
  \<^verbatim>\<open>SELECT p.product_name, s.quantity FROM stock_level s
  JOIN products p ON s.product_id = p.product_id ORDER BY s.quantity ASC;\<close>
\<close>

definition low_stock_levels_rows ::
  "tie_order \<Rightarrow> tables \<Rightarrow> (string option \<times> int option) list" where
  "low_stock_levels_rows tie t =
     map (\<lambda>(s, p). (product_name p, quantity s))
       (order_by_asc_ties tie (\<lambda>(s, p). quantity s)
          (inner_join (stock_level t) (products t)
             (\<lambda>s p. stock_product_id s = Some (product_id p))))"

definition low_stock_levels_query :: "(string option \<times> int option) sql" where
  "low_stock_levels_query =
     Select (\<lambda>tie t. Inr (fetch_rows (\<lambda>(name, q). [(''product_name'', name)])
       (low_stock_levels_rows tie t)))"

text \<open>
  \<^verbatim>\<open>SELECT p.product_id, p.product_name, SUM(od.quantity_ordered) AS total_quantity
  FROM order_details od JOIN products p ON od.product_id = p.product_id
  GROUP BY p.product_id, p.product_name ORDER BY total_quantity DESC LIMIT 10;\<close>
  The totals of the groups come first, since one of them may overflow; each total is
  taken over the joined rows of the group in the order of the join.
\<close>

definition product_totals ::
  "tables \<Rightarrow> sqlite_error + (int \<times> string option \<times> int option) list" where
  "product_totals t =
     collect
       (map (\<lambda>((pid, pname), g).
               case sql_sum (map (\<lambda>(od, p). quantity_ordered od) g) of
                 Inl e \<Rightarrow> Inl e
               | Inr total_quantity \<Rightarrow> Inr (pid, pname, total_quantity))
            (group_by (\<lambda>(od, p). (product_id p, product_name p))
               (inner_join (order_details t) (products t)
                  (\<lambda>od p. detail_product_id od = Some (product_id p)))))"

definition most_popular_products_rows ::
  "tie_order \<Rightarrow> tables \<Rightarrow> sqlite_error + (int \<times> string option \<times> int option) list" where
  "most_popular_products_rows tie t =
     (case product_totals t of
        Inl e \<Rightarrow> Inl e
      | Inr rows \<Rightarrow>
          Inr (limit 10
            (order_by_desc tie (\<lambda>(pid, pname, total_quantity). total_quantity) rows)))"

definition most_popular_products_query :: "(int \<times> string option \<times> int option) sql" where
  "most_popular_products_query =
     Select (\<lambda>tie t.
       case most_popular_products_rows tie t of
         Inl e \<Rightarrow> Inl e
       | Inr rows \<Rightarrow>
           Inr (fetch_rows (\<lambda>(pid, pname, total_quantity). [(''product_name'', pname)]) rows))"

text \<open>
  \<^verbatim>\<open>SELECT pm.method_name, COUNT(p.payment_id) AS transaction_count FROM payments p
  JOIN payment_methods pm ON p.method_id = pm.method_id
  GROUP BY pm.method_name ORDER BY transaction_count DESC;\<close>
\<close>

definition payment_method_popularity_rows ::
  "tie_order \<Rightarrow> tables \<Rightarrow> (string option \<times> int) list" where
  "payment_method_popularity_rows tie t =
     order_by_desc tie snd
       (map (\<lambda>(name, g). (name, sql_count (map (\<lambda>(p, pm). Some (payment_id p)) g)))
            (group_by (\<lambda>(p, pm). method_name pm)
               (inner_join (payments t) (payment_methods t)
                  (\<lambda>p pm. payment_method_id p = Some (method_id pm)))))"

definition payment_method_popularity_query :: "(string option \<times> int) sql" where
  "payment_method_popularity_query =
     Select (\<lambda>tie t. Inr (fetch_rows (\<lambda>(name, n). [(''method_name'', name)])
       (payment_method_popularity_rows tie t)))"

section \<open>What a request can see and change\<close>

text \<open>
  A JSON value. The members of an object are kept in the order of the dict literal of
  the source; the order in which \<^verbatim>\<open>jsonify\<close> writes them out is not modelled.
\<close>

datatype json =
  J_null
| J_int int
| J_str string
| J_arr "json list"
| J_obj "(string \<times> json) list"

datatype body = Json json | Html string

record response =
  status :: nat
  body :: body

text \<open>The exceptions of Python that app.py raises, catches or lets through.\<close>

datatype exn =
  Sqlite3_Error sqlite_error
| HTTPException nat string
| IndexError
| ConnectionError
| HTTPError nat
| JSONDecodeError

datatype log_entry = Log_error string exn

datatype db_event = Connect | Execute | Fetchall | Commit | Rollback | Close

text \<open>The \<^verbatim>\<open>params\<close> dictionary handed to \<^verbatim>\<open>requests.get\<close>.\<close>

record weather_params =
  latitude :: string
  longitude :: string
  start_date :: "string option"
  end_date :: "string option"
  daily :: string
  timezone :: string

text \<open>
  What the weather archive does with a request: no answer at all, or an answer with a
  status code and a body that is JSON or is not (\<open>None\<close>).
\<close>

datatype http_outcome = Network_failure | Reply nat "json option"

text \<open>
  The world around one request: the storage (whether \<^verbatim>\<open>sqlite3.connect\<close> fails, whether
  the engine fails on the statement of the request whatever the tables hold, as it does
  when a table of the statement is missing, the tie order of the engine, and the content
  of the tables), the calls made on connections, the log file, the weather archive and
  the requests sent to it.
\<close>

record world =
  connect_failure :: "sqlite_error option"
  engine_failure :: "sqlite_error option"
  tie_order :: tie_order
  db :: tables
  db_events :: "db_event list"
  log :: "log_entry list"
  weather_api :: "weather_params \<Rightarrow> http_outcome"
  http_calls :: "weather_params list"

definition logging_error :: "string \<Rightarrow> exn \<Rightarrow> world \<Rightarrow> world" where
  "logging_error fmt e w = w\<lparr>log := log w @ [Log_error fmt e]\<rparr>"

definition db_event :: "db_event \<Rightarrow> world \<Rightarrow> world" where
  "db_event ev w = w\<lparr>db_events := db_events w @ [ev]\<rparr>"

text \<open>\<^verbatim>\<open>abort(code, description=...)\<close> raises the exception that it returns here.\<close>

definition abort :: "nat \<Rightarrow> string \<Rightarrow> exn" where
  "abort code description = HTTPException code description"

definition jsonify :: "json \<Rightarrow> response" where
  "jsonify j = \<lparr>status = 200, body = Json j\<rparr>"

definition j_text :: "string option \<Rightarrow> json" where
  "j_text v = (case v of None \<Rightarrow> J_null | Some s \<Rightarrow> J_str s)"

definition j_int :: "int option \<Rightarrow> json" where
  "j_int v = (case v of None \<Rightarrow> J_null | Some n \<Rightarrow> J_int n)"

section \<open>query\_db\<close>

text \<open>
  \<^verbatim>\<open>cursor.execute(query, args)\<close>: the error that it raises, or the result that is pending
  and the content of the tables that a commit would install. The statements of app.py
  have no placeholder, and no view passes \<^verbatim>\<open>args\<close>.
\<close>

definition cursor_execute :: "'r sql \<Rightarrow> world \<Rightarrow> sqlite_error + ('r pending \<times> tables)" where
  "cursor_execute query w =
     (case engine_failure w of
        Some e \<Rightarrow> Inl e
      | None \<Rightarrow>
          (case query of
             Select f \<Rightarrow>
               (case f (tie_order w) (db w) of
                  Inl e \<Rightarrow> Inl e
                | Inr result \<Rightarrow> Inr (result, db w))
           | Write g \<Rightarrow> Inr (Rows [], g (db w))))"

text \<open>\<^verbatim>\<open>cursor.fetchall()\<close>\<close>

definition cursor_fetchall :: "'r pending \<Rightarrow> sqlite_error + 'r list" where
  "cursor_fetchall result = (case result of Rows rows \<Rightarrow> Inr rows | Undecodable e \<Rightarrow> Inl e)"

text \<open>
  The connection is used as a context manager: leaving the \<^verbatim>\<open>with\<close> block commits the
  transaction, leaving it by an exception rolls the transaction back. No call of
  \<^verbatim>\<open>close\<close> is made. An error of sqlite3 is logged and turned into \<^verbatim>\<open>abort(500)\<close>.
\<close>

definition query_db :: "'r sql \<Rightarrow> world \<Rightarrow> (exn + 'r list) \<times> world" where
  "query_db query w =
     (case connect_failure w of
        Some e \<Rightarrow>
          (Inl (abort 500 ''Database error''),
           logging_error ''Database error: %s'' (Sqlite3_Error e) w)
      | None \<Rightarrow>
          (let w1 = db_event Execute (db_event Connect w)
           in case cursor_execute query w of
                Inl e \<Rightarrow>
                  (Inl (abort 500 ''Database error''),
                   logging_error ''Database error: %s'' (Sqlite3_Error e)
                     (db_event Rollback w1))
              | Inr (result, t) \<Rightarrow>
                  (let w2 = db_event Fetchall w1
                   in case cursor_fetchall result of
                        Inl e \<Rightarrow>
                          (Inl (abort 500 ''Database error''),
                           logging_error ''Database error: %s'' (Sqlite3_Error e)
                             (db_event Rollback w2))
                      | Inr results \<Rightarrow> (Inr results, (db_event Commit w2)\<lparr>db := t\<rparr>))))"

section \<open>The error handlers and the routes\<close>

definition not_found :: "exn \<Rightarrow> response" where
  "not_found error = \<lparr>status = 404, body = Json (J_obj [(''error'', J_str ''Not found'')])\<rparr>"

definition internal_error :: "exn \<Rightarrow> response" where
  "internal_error error =
     \<lparr>status = 500, body = Json (J_obj [(''error'', J_str ''Internal server error'')])\<rparr>"

text \<open>
  \<^verbatim>\<open>render_template('dashboard.html')\<close>: the template is not among the sources, and the
  page is stood for by the name of its template.
\<close>

definition index :: "world \<Rightarrow> (exn + response) \<times> world" where
  "index w = (Inr \<lparr>status = 200, body = Html ''dashboard.html''\<rparr>, w)"

definition temperature_params :: "string option \<Rightarrow> string option \<Rightarrow> weather_params" where
  "temperature_params start_d end_d =
     \<lparr>latitude = ''50.6053'', longitude = ''-3.5952'', start_date = start_d, end_date = end_d,
      daily = ''temperature_2m_max'', timezone = ''GMT''\<rparr>"

text \<open>\<^verbatim>\<open>requests.get(API_ENDPOINT, params=params)\<close>\<close>

definition requests_get :: "weather_params \<Rightarrow> world \<Rightarrow> (exn + nat \<times> json option) \<times> world" where
  "requests_get params w =
     (let w1 = w\<lparr>http_calls := http_calls w @ [params]\<rparr>
      in case weather_api w params of
           Network_failure \<Rightarrow> (Inl ConnectionError, w1)
         | Reply code content \<Rightarrow> (Inr (code, content), w1))"

text \<open>\<^verbatim>\<open>response.raise_for_status()\<close> raises for the codes 400 to 599.\<close>

definition raise_for_status :: "nat \<Rightarrow> exn + unit" where
  "raise_for_status code = (if 400 \<le> code \<and> code < 600 then Inl (HTTPError code) else Inr ())"

text \<open>\<^verbatim>\<open>response.json()\<close>\<close>

definition response_json :: "json option \<Rightarrow> exn + json" where
  "response_json content = (case content of None \<Rightarrow> Inl JSONDecodeError | Some j \<Rightarrow> Inr j)"

text \<open>The body of the \<^verbatim>\<open>try\<close> block of \<^verbatim>\<open>temperature_over_time\<close>.\<close>

definition temperature_try :: "world \<Rightarrow> (exn + response) \<times> world" where
  "temperature_try w =
     (case query_db date_range_query w of
        (Inl e, w1) \<Rightarrow> (Inl e, w1)
      | (Inr result, w1) \<Rightarrow>
          (case result of
             [] \<Rightarrow> (Inl IndexError, w1)
           | (start_d, end_d) # rest \<Rightarrow>
               (case requests_get (temperature_params start_d end_d) w1 of
                  (Inl e, w2) \<Rightarrow> (Inl e, w2)
                | (Inr (code, content), w2) \<Rightarrow>
                    (case raise_for_status code of
                       Inl e \<Rightarrow> (Inl e, w2)
                     | Inr u \<Rightarrow>
                         (case response_json content of
                            Inl e \<Rightarrow> (Inl e, w2)
                          | Inr j \<Rightarrow> (Inr (jsonify j), w2))))))"

definition temperature_over_time :: "world \<Rightarrow> (exn + response) \<times> world" where
  "temperature_over_time w =
     (case temperature_try w of
        (Inl e, w1) \<Rightarrow>
          (Inl (abort 500 ''Error fetching temperature data.''),
           logging_error ''Error in /api/temperature_over_time: %s'' e w1)
      | (Inr r, w1) \<Rightarrow> (Inr r, w1))"

definition orders_over_time :: "world \<Rightarrow> (exn + response) \<times> world" where
  "orders_over_time w =
     (case query_db orders_over_time_query w of
        (Inl e, w1) \<Rightarrow>
          (Inl (abort 500 ''Error fetching orders over time''),
           logging_error ''Error fetching orders over time: %s'' e w1)
      | (Inr result, w1) \<Rightarrow>
          (let dates = map fst result;
               counts = map snd result
           in (Inr (jsonify (J_obj [(''dates'', J_arr (map j_text dates)),
                                    (''counts'', J_arr (map J_int counts))])), w1)))"

definition low_stock_levels :: "world \<Rightarrow> (exn + response) \<times> world" where
  "low_stock_levels w =
     (case query_db low_stock_levels_query w of
        (Inl e, w1) \<Rightarrow>
          (Inl (abort 500 ''Error fetching low stock levels''),
           logging_error ''Error fetching low stock levels: %s'' e w1)
      | (Inr result, w1) \<Rightarrow>
          (let products = map fst result;
               quantities = map snd result
           in (Inr (jsonify (J_obj [(''products'', J_arr (map j_text products)),
                                    (''quantities'', J_arr (map j_int quantities))])), w1)))"

definition most_popular_products :: "world \<Rightarrow> (exn + response) \<times> world" where
  "most_popular_products w =
     (case query_db most_popular_products_query w of
        (Inl e, w1) \<Rightarrow>
          (Inl (abort 500 ''Error fetching most popular products''),
           logging_error ''Error fetching most popular products: %s'' e w1)
      | (Inr result, w1) \<Rightarrow>
          (let product_ids = map fst result;
               product_names = map (\<lambda>row. fst (snd row)) result;
               totals = map (\<lambda>row. snd (snd row)) result
           in (Inr (jsonify (J_obj [(''product_ids'', J_arr (map J_int product_ids)),
                                    (''product_names'', J_arr (map j_text product_names)),
                                    (''totals'', J_arr (map j_int totals))])), w1)))"

definition payment_method_popularity :: "world \<Rightarrow> (exn + response) \<times> world" where
  "payment_method_popularity w =
     (case query_db payment_method_popularity_query w of
        (Inl e, w1) \<Rightarrow>
          (Inl (abort 500 ''Error fetching payment method popularity''),
           logging_error ''Error fetching payment method popularity: %s'' e w1)
      | (Inr result, w1) \<Rightarrow>
          (let methods = map fst result;
               counts = map snd result
           in (Inr (jsonify (J_obj [(''methods'', J_arr (map j_text methods)),
                                    (''counts'', J_arr (map J_int counts))])), w1)))"

text \<open>The routing table of the application; a path that no route matches aborts with 404.\<close>

definition dispatch_request :: "string \<Rightarrow> world \<Rightarrow> (exn + response) \<times> world" where
  "dispatch_request path w =
     (if path = ''/'' then index w
      else if path = ''/api/temperature_over_time'' then temperature_over_time w
      else if path = ''/api/orders_over_time'' then orders_over_time w
      else if path = ''/api/low_stock_levels'' then low_stock_levels w
      else if path = ''/api/most_popular_products'' then most_popular_products w
      else if path = ''/api/payment_method_popularity'' then payment_method_popularity w
      else (Inl (abort 404 ''Not Found''), w))"

text \<open>
  An exception that leaves a view is handed to the error handler registered for its
  code: 404 and 500 have one; an exception that is not an HTTP exception counts as 500.
\<close>

definition handle_user_exception :: "exn \<Rightarrow> response" where
  "handle_user_exception e =
     (case e of
        HTTPException code description \<Rightarrow>
          (if code = 404 then not_found e
           else if code = 500 then internal_error e
           else \<lparr>status = code, body = Html description\<rparr>)
      | _ \<Rightarrow> internal_error e)"

text \<open>A GET request for a path: the response sent and the world left behind.\<close>

definition handle_request :: "string \<Rightarrow> world \<Rightarrow> response \<times> world" where
  "handle_request path w =
     (case dispatch_request path w of
        (Inl e, w1) \<Rightarrow> (handle_user_exception e, w1)
      | (Inr r, w1) \<Rightarrow> (r, w1))"

section \<open>Notions used in the statements\<close>

text \<open>
  The error, if any, that the storage layer raises when \<^verbatim>\<open>query_db\<close> runs a statement:
  the one of \<^verbatim>\<open>sqlite3.connect\<close>, or else the one of \<^verbatim>\<open>execute\<close>, or else the one of
  \<^verbatim>\<open>fetchall\<close>.
\<close>

definition storage_error :: "'r sql \<Rightarrow> world \<Rightarrow> sqlite_error option" where
  "storage_error query w =
     (case connect_failure w of
        Some e \<Rightarrow> Some e
      | None \<Rightarrow>
          (case cursor_execute query w of
             Inl e \<Rightarrow> Some e
           | Inr (result, t) \<Rightarrow>
               (case cursor_fetchall result of Inl e \<Rightarrow> Some e | Inr rows \<Rightarrow> None)))"

definition api_routes :: "string list" where
  "api_routes =
     [''/api/temperature_over_time'', ''/api/orders_over_time'', ''/api/low_stock_levels'',
      ''/api/most_popular_products'', ''/api/payment_method_popularity'']"

definition sql_only_routes :: "string list" where
  "sql_only_routes =
     [''/api/orders_over_time'', ''/api/low_stock_levels'',
      ''/api/most_popular_products'', ''/api/payment_method_popularity'']"

text \<open>The error that the storage layer raises on the statement of a route.\<close>

definition route_storage_error :: "string \<Rightarrow> world \<Rightarrow> sqlite_error option" where
  "route_storage_error path w =
     (if path = ''/api/temperature_over_time'' then storage_error date_range_query w
      else if path = ''/api/orders_over_time'' then storage_error orders_over_time_query w
      else if path = ''/api/low_stock_levels'' then storage_error low_stock_levels_query w
      else if path = ''/api/most_popular_products''
        then storage_error most_popular_products_query w
      else if path = ''/api/payment_method_popularity''
        then storage_error payment_method_popularity_query w
      else None)"

text \<open>
  The exception, if any, that the external call of \<^verbatim>\<open>temperature_over_time\<close> raises on an
  outcome of the archive: in \<^verbatim>\<open>requests.get\<close>, in \<^verbatim>\<open>raise_for_status\<close> or in
  \<^verbatim>\<open>response.json\<close>.
\<close>

definition external_failure :: "http_outcome \<Rightarrow> exn option" where
  "external_failure outcome =
     (case outcome of
        Network_failure \<Rightarrow> Some ConnectionError
      | Reply code content \<Rightarrow>
          (case raise_for_status code of
             Inl e \<Rightarrow> Some e
           | Inr u \<Rightarrow> (case response_json content of Inl e \<Rightarrow> Some e | Inr j \<Rightarrow> None)))"

text \<open>The arrays among the members of a JSON object.\<close>

fun arrays_of :: "json \<Rightarrow> json list list" where
  "arrays_of (J_obj members) =
     concat (map (\<lambda>(k, v). case v of J_arr xs \<Rightarrow> [xs] | _ \<Rightarrow> []) members)"
| "arrays_of j = []"

definition response_arrays :: "response \<Rightarrow> json list list" where
  "response_arrays r = (case body r of Json j \<Rightarrow> arrays_of j | Html page \<Rightarrow> [])"

text \<open>
  The sum of \<open>quantity_ordered\<close> over the order lines of a product, as the claims speak of
  it and without reference to the statement of app.py: the lines of a product are the
  order lines that refer to a row of \<open>products\<close> with this id and this name; a NULL
  quantity does not count, and the sum is NULL when no line has a quantity.
\<close>

definition summed_quantity :: "tables \<Rightarrow> int \<Rightarrow> string option \<Rightarrow> int option" where
  "summed_quantity t pid pname =
     (let lines = filter (\<lambda>(od, p). detail_product_id od = Some (product_id p) \<and>
                                      product_id p = pid \<and> product_name p = pname)
                    (List.product (order_details t) (products t));
          quantities = filter (\<lambda>q. q \<noteq> None) (map (\<lambda>(od, p). quantity_ordered od) lines)
      in if quantities = [] then None else Some (sum_list (map the quantities)))"

section \<open>Example states\<close>

definition empty_tables :: tables where
  "empty_tables =
     \<lparr>orders = [], products = [], stock_level = [], order_details = [],
      payments = [], payment_methods = []\<rparr>"

definition archive_down :: "weather_params \<Rightarrow> http_outcome" where
  "archive_down params = Network_failure"

definition archive_rejects :: "weather_params \<Rightarrow> http_outcome" where
  "archive_rejects params = Reply 400 (Some (J_obj [(''error'', J_str ''true'')]))"

definition archive_answers :: "weather_params \<Rightarrow> http_outcome" where
  "archive_answers params = Reply 200 (Some (J_obj [(''daily'', J_obj [])]))"

text \<open>The engine that keeps the rows in the order in which the statement computes them.\<close>

definition table_order :: tie_order where
  "table_order n = [0..<n]"

definition make_world :: "tables \<Rightarrow> (weather_params \<Rightarrow> http_outcome) \<Rightarrow> world" where
  "make_world t api =
     \<lparr>connect_failure = None, engine_failure = None, tie_order = table_order, db = t,
      db_events = [], log = [],
      weather_api = api, http_calls = []\<rparr>"

text \<open>
  The database file is missing and the request is for a route that reads \<open>orders\<close>: a
  new, empty file is opened, in which the table of the statement does not exist.
\<close>

definition missing_file_world :: world where
  "missing_file_world =
     (make_world empty_tables archive_down)
       \<lparr>engine_failure := Some (OperationalError ''no such table: orders'')\<rparr>"

text \<open>Two orders on the first of January 2024 and one on the second.\<close>

definition january_orders :: tables where
  "january_orders =
     empty_tables
       \<lparr>orders := [\<lparr>order_id = 1, order_date = Some ''2024-01-01''\<rparr>,
                   \<lparr>order_id = 2, order_date = Some ''2024-01-02''\<rparr>,
                   \<lparr>order_id = 3, order_date = Some ''2024-01-01''\<rparr>]\<rparr>"

definition archive_multiple_choices :: "weather_params \<Rightarrow> http_outcome" where
  "archive_multiple_choices params = Reply 300 (Some (J_obj [(''choices'', J_arr [])]))"


text \<open>Eleven products; product \<open>i\<close> was ordered once, \<open>i\<close> pieces of it.\<close>

definition eleven_products :: tables where
  "eleven_products =
     empty_tables
       \<lparr>products := map (\<lambda>i. \<lparr>product_id = i, product_name = Some ''item''\<rparr>)
                         [1, 2, 3, 4, 5, 6, 7, 8, 9, 10, 11],
        order_details :=
          map (\<lambda>i. \<lparr>detail_order_id = Some 1, detail_product_id = Some i,
                     quantity_ordered = Some i\<rparr>)
              [1, 2, 3, 4, 5, 6, 7, 8, 9, 10, 11]\<rparr>"

text \<open>One order, whose date is the single byte FF, which is not UTF-8.\<close>

definition undecodable_orders :: tables where
  "undecodable_orders =
     empty_tables\<lparr>orders := [\<lparr>order_id = 1, order_date = Some [CHR 0xFF]\<rparr>]\<rparr>"


text \<open>Two payments by two methods, and the engine that holds later rows first.\<close>

definition tied_payments :: tables where
  "tied_payments =
     empty_tables
       \<lparr>payments := [\<lparr>payment_id = 1, payment_method_id = Some 2\<rparr>,
                     \<lparr>payment_id = 2, payment_method_id = Some 1\<rparr>],
        payment_methods := [\<lparr>method_id = 1, method_name = Some ''card''\<rparr>,
                            \<lparr>method_id = 2, method_name = Some ''cash''\<rparr>]\<rparr>"

definition later_first :: tie_order where
  "later_first n = rev [0..<n]"

section \<open>query\_db and the views, case by case\<close>

lemma engine_order_perm: "mset (engine_order tie rows) = mset rows"
proof (cases "sort (tie (length rows)) = [0..<length rows]")
  case True
  have "mset (tie (length rows)) = mset (sort (tie (length rows)))"
    by simp
  then have "mset (tie (length rows)) = mset [0..<length rows]"
    by (simp only: True)
  then have "image_mset (\<lambda>i. rows ! i) (mset (tie (length rows))) =
             image_mset (\<lambda>i. rows ! i) (mset [0..<length rows])"
    by (rule arg_cong)
  then have "mset (map (\<lambda>i. rows ! i) (tie (length rows))) =
             mset (map (\<lambda>i. rows ! i) [0..<length rows])"
    by (simp only: mset_map)
  with True show ?thesis by (simp add: engine_order_def map_nth)
next
  case False
  then show ?thesis by (simp add: engine_order_def)
qed

lemma set_engine_order: "set (engine_order tie rows) = set rows"
  by (rule mset_eq_setD) (rule engine_order_perm)

lemma length_engine_order: "length (engine_order tie rows) = length rows"
  by (rule mset_eq_length) (rule engine_order_perm)

lemma engine_order_Nil: "engine_order tie [] = []"
  using length_engine_order [of tie "[]"] by simp


lemma engine_order_table_order: "engine_order table_order rows = rows"
  by (simp add: engine_order_def table_order_def map_nth)

lemma perm_of_map:
  "mset zs = mset (map f xs) \<Longrightarrow> \<exists>ys. mset ys = mset xs \<and> map f ys = zs"
proof (induction zs arbitrary: xs)
  case Nil
  then show ?case by simp
next
  case (Cons z zs)
  have "z \<in> f ` set xs"
    using mset_eq_setD [OF Cons.prems] by auto
  then obtain x where x: "x \<in> set xs" "f x = z" by auto
  have i: "image_mset f (mset xs) = mset (z # zs)"
    using Cons.prems by simp
  from x(1) have "image_mset f (mset xs - {#x#}) = image_mset f (mset xs) - {#f x#}"
    by (simp add: image_mset_Diff)
  then have "image_mset f (mset xs - {#x#}) = mset (z # zs) - {#f x#}"
    by (simp only: i)
  then have "mset zs = mset (map f (remove1 x xs))"
    by (simp add: x(2))
  from Cons.IH [OF this] obtain ys where ys: "mset ys = mset (remove1 x xs)" "map f ys = zs"
    by (elim exE conjE)
  from ys x have "mset (x # ys) = mset xs \<and> map f (x # ys) = z # zs"
    by simp
  then show ?case by (rule exI [of _ "x # ys"])
qed

lemma sort_positions:
  assumes "mset positions = mset [0..<n]"
  shows "sort positions = [0..<n]"
  using assms by (intro properties_for_sort) simp_all

text \<open>
  The tie orders leave the engine every choice: each order of the rows is the engine's
  order for some tie order, and each list that holds the rows sorted by their keys is
  the result of \<^verbatim>\<open>ORDER BY\<close> for some tie order.
\<close>

lemma every_order_is_an_engine_order:
  assumes "mset target = mset rows"
  shows "\<exists>tie. engine_order tie rows = target"
proof -
  from assms have "mset target = mset (map (\<lambda>i. rows ! i) [0..<length rows])"
    by (simp add: map_nth)
  from perm_of_map [OF this] obtain positions where
    p: "mset positions = mset [0..<length rows]" and t: "map (\<lambda>i. rows ! i) positions = target"
    by (elim exE conjE)
  from sort_positions [OF p] t have "engine_order (\<lambda>n. positions) rows = target"
    by (simp add: engine_order_def)
  then show ?thesis by (rule exI [of "\<lambda>tie. engine_order tie rows = target"])
qed

lemma every_descending_order_is_a_result:
  assumes "mset target = mset rows" and "sorted (rev (map key target))"
  shows "\<exists>tie. order_by_desc tie key rows = target"
proof -
  from assms(1) have "mset (rev target) = mset rows" by simp
  from every_order_is_an_engine_order [OF this] obtain tie where
    e: "engine_order tie rows = rev target" by (elim exE)
  from assms(2) have "sort_key key (rev target) = rev target"
    by (intro sort_key_id_if_sorted) (simp add: rev_map)
  with e have "order_by_desc tie key rows = target"
    by (simp add: order_by_desc_def)
  then show ?thesis by (rule exI [of "\<lambda>tie. order_by_desc tie key rows = target"])
qed

lemma every_ascending_order_is_a_result:
  assumes "mset target = mset rows" and "sorted (map key target)"
  shows "\<exists>tie. order_by_asc_ties tie key rows = target"
proof -
  from every_order_is_an_engine_order [OF assms(1)] obtain tie where
    e: "engine_order tie rows = target" by (elim exE)
  from assms(2) have "sort_key key target = target"
    by (rule sort_key_id_if_sorted)
  with e have "order_by_asc_ties tie key rows = target"
    by (simp add: order_by_asc_ties_def)
  then show ?thesis by (rule exI [of "\<lambda>tie. order_by_asc_ties tie key rows = target"])
qed

lemma fetch_rows_Rows: "fetch_rows texts rows = Rows rs \<Longrightarrow> rs = rows"
  by (simp add: fetch_rows_def split: option.splits)

lemma storage_error_cases:
  assumes "storage_error query w = Some e"
  obtains "connect_failure w = Some e"
  | "connect_failure w = None" and "cursor_execute query w = Inl e"
  | result t where "connect_failure w = None" and "cursor_execute query w = Inr (result, t)"
      and "cursor_fetchall result = Inl e"
  using assms
  by (auto simp: storage_error_def split: option.splits sum.splits prod.splits)

lemma storage_ok_cases:
  assumes "storage_error query w = None"
  obtains result t rows where "connect_failure w = None"
    and "cursor_execute query w = Inr (result, t)" and "cursor_fetchall result = Inr rows"
  using assms
  by (auto simp: storage_error_def split: option.splits sum.splits prod.splits)

lemma query_db_error:
  assumes "storage_error query w = Some e"
  shows "\<exists>w1. query_db query w = (Inl (HTTPException 500 ''Database error''), w1) \<and>
           log w1 = log w @ [Log_error ''Database error: %s'' (Sqlite3_Error e)] \<and>
           db w1 = db w \<and> http_calls w1 = http_calls w \<and> weather_api w1 = weather_api w"
  using assms
proof (cases rule: storage_error_cases)
  case 1
  then show ?thesis
    by (simp add: query_db_def abort_def logging_error_def)
next
  case 2
  then show ?thesis
    by (simp add: query_db_def abort_def logging_error_def db_event_def)
next
  case (3 result t)
  then show ?thesis
    by (simp add: query_db_def abort_def logging_error_def db_event_def)
qed

lemma query_db_select_ok:
  assumes "storage_error (Select f) w = None"
  shows "\<exists>rows. f (tie_order w) (db w) = Inr (Rows rows) \<and>
           query_db (Select f) w =
             (Inr rows, w\<lparr>db_events := db_events w @ [Connect, Execute, Fetchall, Commit]\<rparr>)"
  using assms
proof (cases rule: storage_ok_cases)
  case (1 result t rows)
  from 1(2) have e: "engine_failure w = None"
    by (simp add: cursor_execute_def split: option.splits)
  from 1(2) e have f: "f (tie_order w) (db w) = Inr result" and t: "t = db w"
    by (simp_all add: cursor_execute_def split: sum.splits)
  from 1(3) have r: "result = Rows rows"
    by (cases result) (simp_all add: cursor_fetchall_def)
  from 1(1) 1(2) 1(3) t f r show ?thesis
    by (simp add: query_db_def db_event_def)
qed

lemma query_db_result: "fst (query_db query w) = r \<Longrightarrow> \<exists>w1. query_db query w = (r, w1)"
  by (cases "query_db query w") simp

lemma dispatch_routes:
  "dispatch_request ''/'' w = index w"
  "dispatch_request ''/api/temperature_over_time'' w = temperature_over_time w"
  "dispatch_request ''/api/orders_over_time'' w = orders_over_time w"
  "dispatch_request ''/api/low_stock_levels'' w = low_stock_levels w"
  "dispatch_request ''/api/most_popular_products'' w = most_popular_products w"
  "dispatch_request ''/api/payment_method_popularity'' w = payment_method_popularity w"
  by (simp_all add: dispatch_request_def)

lemma handle_request_raised:
  "dispatch_request path w = (Inl (HTTPException 500 d), w2) \<Longrightarrow>
   handle_request path w =
     (\<lparr>status = 500, body = Json (J_obj [(''error'', J_str ''Internal server error'')])\<rparr>, w2)"
  by (simp add: handle_request_def handle_user_exception_def internal_error_def)

lemma handle_request_ok:
  "dispatch_request path w = (Inr r, w1) \<Longrightarrow> handle_request path w = (r, w1)"
  by (simp add: handle_request_def)

lemma handle_request_world: "snd (handle_request path w) = snd (dispatch_request path w)"
  by (cases "dispatch_request path w" rule: prod.exhaust; cases "fst (dispatch_request path w)")
     (simp_all add: handle_request_def)

lemma route_storage_error_simps:
  "route_storage_error ''/api/temperature_over_time'' w = storage_error date_range_query w"
  "route_storage_error ''/api/orders_over_time'' w = storage_error orders_over_time_query w"
  "route_storage_error ''/api/low_stock_levels'' w = storage_error low_stock_levels_query w"
  "route_storage_error ''/api/most_popular_products'' w =
     storage_error most_popular_products_query w"
  "route_storage_error ''/api/payment_method_popularity'' w =
     storage_error payment_method_popularity_query w"
  by (simp_all add: route_storage_error_def)

lemma orders_over_time_error:
  assumes "storage_error orders_over_time_query w = Some e"
  shows "\<exists>w2. orders_over_time w =
                 (Inl (HTTPException 500 ''Error fetching orders over time''), w2) \<and>
           log w2 = log w @ [Log_error ''Database error: %s'' (Sqlite3_Error e),
                             Log_error ''Error fetching orders over time: %s''
                               (HTTPException 500 ''Database error'')] \<and>
           db w2 = db w \<and> http_calls w2 = http_calls w"
proof -
  from query_db_error [OF assms] obtain w1 where
    q: "query_db orders_over_time_query w = (Inl (HTTPException 500 ''Database error''), w1)"
    and l: "log w1 = log w @ [Log_error ''Database error: %s'' (Sqlite3_Error e)]"
    and d: "db w1 = db w" "http_calls w1 = http_calls w"
    by blast
  show ?thesis
    by (simp add: orders_over_time_def q abort_def logging_error_def l d)
qed

lemma low_stock_levels_error:
  assumes "storage_error low_stock_levels_query w = Some e"
  shows "\<exists>w2. low_stock_levels w =
                 (Inl (HTTPException 500 ''Error fetching low stock levels''), w2) \<and>
           log w2 = log w @ [Log_error ''Database error: %s'' (Sqlite3_Error e),
                             Log_error ''Error fetching low stock levels: %s''
                               (HTTPException 500 ''Database error'')] \<and>
           db w2 = db w \<and> http_calls w2 = http_calls w"
proof -
  from query_db_error [OF assms] obtain w1 where
    q: "query_db low_stock_levels_query w = (Inl (HTTPException 500 ''Database error''), w1)"
    and l: "log w1 = log w @ [Log_error ''Database error: %s'' (Sqlite3_Error e)]"
    and d: "db w1 = db w" "http_calls w1 = http_calls w"
    by blast
  show ?thesis
    by (simp add: low_stock_levels_def q abort_def logging_error_def l d)
qed

lemma most_popular_products_error:
  assumes "storage_error most_popular_products_query w = Some e"
  shows "\<exists>w2. most_popular_products w =
                 (Inl (HTTPException 500 ''Error fetching most popular products''), w2) \<and>
           log w2 = log w @ [Log_error ''Database error: %s'' (Sqlite3_Error e),
                             Log_error ''Error fetching most popular products: %s''
                               (HTTPException 500 ''Database error'')] \<and>
           db w2 = db w \<and> http_calls w2 = http_calls w"
proof -
  from query_db_error [OF assms] obtain w1 where
    q: "query_db most_popular_products_query w =
          (Inl (HTTPException 500 ''Database error''), w1)"
    and l: "log w1 = log w @ [Log_error ''Database error: %s'' (Sqlite3_Error e)]"
    and d: "db w1 = db w" "http_calls w1 = http_calls w"
    by blast
  show ?thesis
    by (simp add: most_popular_products_def q abort_def logging_error_def l d)
qed

lemma payment_method_popularity_error:
  assumes "storage_error payment_method_popularity_query w = Some e"
  shows "\<exists>w2. payment_method_popularity w =
                 (Inl (HTTPException 500 ''Error fetching payment method popularity''), w2) \<and>
           log w2 = log w @ [Log_error ''Database error: %s'' (Sqlite3_Error e),
                             Log_error ''Error fetching payment method popularity: %s''
                               (HTTPException 500 ''Database error'')] \<and>
           db w2 = db w \<and> http_calls w2 = http_calls w"
proof -
  from query_db_error [OF assms] obtain w1 where
    q: "query_db payment_method_popularity_query w =
          (Inl (HTTPException 500 ''Database error''), w1)"
    and l: "log w1 = log w @ [Log_error ''Database error: %s'' (Sqlite3_Error e)]"
    and d: "db w1 = db w" "http_calls w1 = http_calls w"
    by blast
  show ?thesis
    by (simp add: payment_method_popularity_def q abort_def logging_error_def l d)
qed

lemma temperature_over_time_error:
  assumes "storage_error date_range_query w = Some e"
  shows "\<exists>w2. temperature_over_time w =
                 (Inl (HTTPException 500 ''Error fetching temperature data.''), w2) \<and>
           log w2 = log w @ [Log_error ''Database error: %s'' (Sqlite3_Error e),
                             Log_error ''Error in /api/temperature_over_time: %s''
                               (HTTPException 500 ''Database error'')] \<and>
           db w2 = db w \<and> http_calls w2 = http_calls w"
proof -
  from query_db_error [OF assms] obtain w1 where
    q: "query_db date_range_query w = (Inl (HTTPException 500 ''Database error''), w1)"
    and l: "log w1 = log w @ [Log_error ''Database error: %s'' (Sqlite3_Error e)]"
    and d: "db w1 = db w" "http_calls w1 = http_calls w"
    by blast
  show ?thesis
    by (simp add: temperature_over_time_def temperature_try_def q abort_def
        logging_error_def l d)
qed

lemma orders_over_time_ok:
  assumes "storage_error orders_over_time_query w = None"
  shows "orders_over_time w =
           (Inr (jsonify (J_obj
              [(''dates'', J_arr (map j_text (map fst (orders_over_time_rows (db w))))),
               (''counts'', J_arr (map J_int (map snd (orders_over_time_rows (db w)))))])),
            w\<lparr>db_events := db_events w @ [Connect, Execute, Fetchall, Commit]\<rparr>)"
proof -
  from query_db_select_ok [OF assms [unfolded orders_over_time_query_def]] obtain rows where
    r: "fetch_rows (\<lambda>(d, n). [(''order_date'', d)]) (orders_over_time_rows (db w)) = Rows rows"
    and q: "query_db orders_over_time_query w =
              (Inr rows, w\<lparr>db_events := db_events w @ [Connect, Execute, Fetchall, Commit]\<rparr>)"
    unfolding orders_over_time_query_def by auto
  from fetch_rows_Rows [OF r] q show ?thesis
    by (simp add: orders_over_time_def)
qed

lemma low_stock_levels_ok:
  assumes "storage_error low_stock_levels_query w = None"
  shows "low_stock_levels w =
           (Inr (jsonify (J_obj
              [(''products'', J_arr (map j_text (map fst (low_stock_levels_rows (tie_order w) (db w))))),
               (''quantities'', J_arr (map j_int (map snd (low_stock_levels_rows (tie_order w) (db w)))))])),
            w\<lparr>db_events := db_events w @ [Connect, Execute, Fetchall, Commit]\<rparr>)"
proof -
  from query_db_select_ok [OF assms [unfolded low_stock_levels_query_def]] obtain rows where
    r: "fetch_rows (\<lambda>(name, q). [(''product_name'', name)])
          (low_stock_levels_rows (tie_order w) (db w)) = Rows rows"
    and q: "query_db low_stock_levels_query w =
              (Inr rows, w\<lparr>db_events := db_events w @ [Connect, Execute, Fetchall, Commit]\<rparr>)"
    unfolding low_stock_levels_query_def by auto
  from fetch_rows_Rows [OF r] q show ?thesis
    by (simp add: low_stock_levels_def)
qed

lemma payment_method_popularity_ok:
  assumes "storage_error payment_method_popularity_query w = None"
  shows "payment_method_popularity w =
           (Inr (jsonify (J_obj
              [(''methods'', J_arr (map j_text
                  (map fst (payment_method_popularity_rows (tie_order w) (db w))))),
               (''counts'', J_arr (map J_int
                  (map snd (payment_method_popularity_rows (tie_order w) (db w)))))])),
            w\<lparr>db_events := db_events w @ [Connect, Execute, Fetchall, Commit]\<rparr>)"
proof -
  from query_db_select_ok [OF assms [unfolded payment_method_popularity_query_def]] obtain rows where
    r: "fetch_rows (\<lambda>(name, n). [(''method_name'', name)])
          (payment_method_popularity_rows (tie_order w) (db w)) = Rows rows"
    and q: "query_db payment_method_popularity_query w =
              (Inr rows, w\<lparr>db_events := db_events w @ [Connect, Execute, Fetchall, Commit]\<rparr>)"
    unfolding payment_method_popularity_query_def by auto
  from fetch_rows_Rows [OF r] q show ?thesis
    by (simp add: payment_method_popularity_def)
qed

lemma most_popular_products_ok:
  assumes "storage_error most_popular_products_query w = None"
  shows "\<exists>rows. most_popular_products_rows (tie_order w) (db w) = Inr rows \<and>
           query_db most_popular_products_query w =
             (Inr rows, w\<lparr>db_events := db_events w @ [Connect, Execute, Fetchall, Commit]\<rparr>) \<and>
           most_popular_products w =
             (Inr (jsonify (J_obj
                [(''product_ids'', J_arr (map J_int (map fst rows))),
                 (''product_names'', J_arr (map j_text (map (\<lambda>row. fst (snd row)) rows))),
                 (''totals'', J_arr (map j_int (map (\<lambda>row. snd (snd row)) rows)))])),
              w\<lparr>db_events := db_events w @ [Connect, Execute, Fetchall, Commit]\<rparr>)"
proof -
  from query_db_select_ok [OF assms [unfolded most_popular_products_query_def]]
  obtain rows where
    r: "(case most_popular_products_rows (tie_order w) (db w) of
           Inl e \<Rightarrow> Inl e
         | Inr rows \<Rightarrow>
             Inr (fetch_rows (\<lambda>(pid, pname, total_quantity). [(''product_name'', pname)]) rows))
        = Inr (Rows rows)"
    and q: "query_db most_popular_products_query w =
              (Inr rows, w\<lparr>db_events := db_events w @ [Connect, Execute, Fetchall, Commit]\<rparr>)"
    unfolding most_popular_products_query_def by auto
  from r obtain rows' where r': "most_popular_products_rows (tie_order w) (db w) = Inr rows'"
    and "fetch_rows (\<lambda>(pid, pname, total_quantity). [(''product_name'', pname)]) rows' = Rows rows"
    by (cases "most_popular_products_rows (tie_order w) (db w)") simp_all
  from fetch_rows_Rows [OF this(2)] r' have "most_popular_products_rows (tie_order w) (db w) = Inr rows"
    by simp
  with q show ?thesis
    by (simp add: most_popular_products_def)
qed

lemma date_range_ok:
  assumes "storage_error date_range_query w = None"
  shows "query_db date_range_query w =
           (Inr (date_range_rows (db w)),
            w\<lparr>db_events := db_events w @ [Connect, Execute, Fetchall, Commit]\<rparr>)"
proof -
  from query_db_select_ok [OF assms [unfolded date_range_query_def]] obtain rows where
    r: "fetch_rows (\<lambda>(first, last). [(''MIN(order_date)'', first), (''MAX(order_date)'', last)])
          (date_range_rows (db w)) = Rows rows"
    and q: "query_db date_range_query w =
              (Inr rows, w\<lparr>db_events := db_events w @ [Connect, Execute, Fetchall, Commit]\<rparr>)"
    unfolding date_range_query_def by auto
  from fetch_rows_Rows [OF r] q show ?thesis by simp
qed

lemma external_failure_simps:
  "external_failure Network_failure = Some ConnectionError"
  "400 \<le> code \<and> code < 600 \<Longrightarrow> external_failure (Reply code content) = Some (HTTPError code)"
  "\<not> (400 \<le> code \<and> code < 600) \<Longrightarrow> external_failure (Reply code None) = Some JSONDecodeError"
  "\<not> (400 \<le> code \<and> code < 600) \<Longrightarrow> external_failure (Reply code (Some j)) = None"
  by (simp_all add: external_failure_def raise_for_status_def response_json_def)

text \<open>The run of the view once the date range is known, by the outcome of the archive.\<close>

lemma temperature_over_time_failure:
  assumes "storage_error date_range_query w = None"
    and "external_failure
           (weather_api w (temperature_params (sql_min (map order_date (orders (db w))))
                                              (sql_max (map order_date (orders (db w)))))) = Some ex"
  shows "temperature_over_time w =
           (Inl (HTTPException 500 ''Error fetching temperature data.''),
            w\<lparr>db_events := db_events w @ [Connect, Execute, Fetchall, Commit],
              http_calls := http_calls w @
                [temperature_params (sql_min (map order_date (orders (db w))))
                                    (sql_max (map order_date (orders (db w))))],
              log := log w @ [Log_error ''Error in /api/temperature_over_time: %s'' ex]\<rparr>)"
proof (cases "weather_api w (temperature_params (sql_min (map order_date (orders (db w))))
                                              (sql_max (map order_date (orders (db w)))))")
  case Network_failure
  with assms(2) have "ex = ConnectionError" by (simp add: external_failure_def)
  with Network_failure show ?thesis
    by (simp add: temperature_over_time_def temperature_try_def date_range_ok [OF assms(1)]
        date_range_rows_def requests_get_def abort_def logging_error_def)
next
  case (Reply code content)
  show ?thesis
  proof (cases "raise_for_status code")
    case (Inl e)
    with assms(2) Reply have "ex = e" by (simp add: external_failure_def)
    with Reply Inl show ?thesis
      by (simp add: temperature_over_time_def temperature_try_def date_range_ok [OF assms(1)]
          date_range_rows_def requests_get_def abort_def logging_error_def)
  next
    case (Inr u)
    with assms(2) Reply have "response_json content = Inl ex"
      by (cases "response_json content") (simp_all add: external_failure_def)
    with Reply Inr show ?thesis
      by (simp add: temperature_over_time_def temperature_try_def date_range_ok [OF assms(1)]
          date_range_rows_def requests_get_def abort_def logging_error_def)
  qed
qed

lemma temperature_over_time_success:
  assumes "storage_error date_range_query w = None"
    and "external_failure
           (weather_api w (temperature_params (sql_min (map order_date (orders (db w))))
                                              (sql_max (map order_date (orders (db w)))))) = None"
  shows "\<exists>j. temperature_over_time w =
           (Inr (jsonify j),
            w\<lparr>db_events := db_events w @ [Connect, Execute, Fetchall, Commit],
              http_calls := http_calls w @
                [temperature_params (sql_min (map order_date (orders (db w))))
                                    (sql_max (map order_date (orders (db w))))]\<rparr>)"
proof (cases "weather_api w (temperature_params (sql_min (map order_date (orders (db w))))
                                              (sql_max (map order_date (orders (db w)))))")
  case Network_failure
  with assms(2) show ?thesis by (simp add: external_failure_def)
next
  case (Reply code content)
  from assms(2) Reply obtain u where u: "raise_for_status code = Inr u"
    by (cases "raise_for_status code") (simp_all add: external_failure_def)
  from assms(2) Reply u obtain j where j: "response_json content = Inr j"
    by (cases "response_json content") (simp_all add: external_failure_def)
  from Reply u j show ?thesis
    by (intro exI [of _ j])
       (simp add: temperature_over_time_def temperature_try_def date_range_ok [OF assms(1)]
         date_range_rows_def requests_get_def)
qed

lemma orders_over_time_db: "db (snd (orders_over_time w)) = db w"
proof (cases "storage_error orders_over_time_query w")
  case None
  from orders_over_time_ok [OF this] show ?thesis by simp
next
  case (Some e)
  from orders_over_time_error [OF this] show ?thesis by auto
qed

lemma low_stock_levels_db: "db (snd (low_stock_levels w)) = db w"
proof (cases "storage_error low_stock_levels_query w")
  case None
  from low_stock_levels_ok [OF this] show ?thesis by simp
next
  case (Some e)
  from low_stock_levels_error [OF this] show ?thesis by auto
qed

lemma most_popular_products_db: "db (snd (most_popular_products w)) = db w"
proof (cases "storage_error most_popular_products_query w")
  case None
  from most_popular_products_ok [OF this] show ?thesis by auto
next
  case (Some e)
  from most_popular_products_error [OF this] show ?thesis by auto
qed

lemma payment_method_popularity_db: "db (snd (payment_method_popularity w)) = db w"
proof (cases "storage_error payment_method_popularity_query w")
  case None
  from payment_method_popularity_ok [OF this] show ?thesis by simp
next
  case (Some e)
  from payment_method_popularity_error [OF this] show ?thesis by auto
qed

lemma temperature_over_time_db: "db (snd (temperature_over_time w)) = db w"
proof (cases "storage_error date_range_query w")
  case (Some e)
  from temperature_over_time_error [OF this] show ?thesis by auto
next
  case None
  show ?thesis
  proof (cases "external_failure
           (weather_api w (temperature_params (sql_min (map order_date (orders (db w))))
                                              (sql_max (map order_date (orders (db w))))))")
    case (Some ex)
    from temperature_over_time_failure [OF None this] show ?thesis by simp
  next
    case None': None
    from temperature_over_time_success [OF None this] show ?thesis by auto
  qed
qed

section \<open>Facts about the example states\<close>

lemma world_of_examples:
  "connect_failure (make_world t api) = None"
  "engine_failure (make_world t api) = None"
  "tie_order (make_world t api) = table_order"
  "db (make_world t api) = t"
  "db_events (make_world t api) = []"
  "log (make_world t api) = []"
  "weather_api (make_world t api) = api"
  "http_calls (make_world t api) = []"
  by (simp_all add: make_world_def)

lemma select_storage_ok:
  "connect_failure w = None \<Longrightarrow> engine_failure w = None \<Longrightarrow>
   f (tie_order w) (db w) = Inr (Rows rows) \<Longrightarrow> storage_error (Select f) w = None"
  by (simp add: storage_error_def cursor_execute_def cursor_fetchall_def)

lemma select_result:
  "connect_failure w = None \<Longrightarrow> engine_failure w = None \<Longrightarrow>
   f (tie_order w) (db w) = Inr (Rows rows) \<Longrightarrow> fst (query_db (Select f) w) = Inr rows"
  by (simp add: query_db_def cursor_execute_def cursor_fetchall_def)

lemma empty_tables_rows:
  "date_range_rows empty_tables = [(None, None)]"
  "orders_over_time_rows empty_tables = []"
  "low_stock_levels_rows tie empty_tables = []"
  "most_popular_products_rows tie empty_tables = Inr []"
  "payment_method_popularity_rows tie empty_tables = []"
  by (simp_all add: empty_tables_def date_range_rows_def orders_over_time_rows_def
      low_stock_levels_rows_def most_popular_products_rows_def product_totals_def
      payment_method_popularity_rows_def group_by_def inner_join_def order_by_asc_def
      order_by_asc_ties_def order_by_desc_def engine_order_Nil limit_def)

lemma january_rows:
  "date_range_rows january_orders = [(Some ''2024-01-01'', Some ''2024-01-02'')]"
  "orders_over_time_rows january_orders = [(Some ''2024-01-01'', 2), (Some ''2024-01-02'', 1)]"
  by (simp_all add: january_orders_def empty_tables_def date_range_rows_def
      orders_over_time_rows_def group_by_def order_by_asc_def sql_count_def
      min_def max_def less_char_def)


text \<open>Methods with equal counts come out in the order that the tie order decides.\<close>

lemma tied_payments_either_order:
  "payment_method_popularity_rows table_order tied_payments =
     [(Some ''card'', 1), (Some ''cash'', 1)]"
  "payment_method_popularity_rows later_first tied_payments =
     [(Some ''cash'', 1), (Some ''card'', 1)]"
  by (simp_all add: tied_payments_def empty_tables_def payment_method_popularity_rows_def
      inner_join_def group_by_def order_by_desc_def engine_order_def later_first_def
      table_order_def sql_count_def upt_rec [of 0] upt_rec [of 1] upt_rec [of "Suc 0"])

lemma eleven_products_rows:
  "most_popular_products_rows table_order eleven_products =
     Inr [(11, Some ''item'', Some 11), (10, Some ''item'', Some 10),
          (9, Some ''item'', Some 9), (8, Some ''item'', Some 8), (7, Some ''item'', Some 7),
          (6, Some ''item'', Some 6), (5, Some ''item'', Some 5), (4, Some ''item'', Some 4),
          (3, Some ''item'', Some 3), (2, Some ''item'', Some 2)]"
  by (simp add: eleven_products_def empty_tables_def most_popular_products_rows_def
      product_totals_def sql_sum_def int64_range_def limit_def
      inner_join_def group_by_def order_by_desc_def engine_order_table_order)

lemma date_range_storage_ok:
  "storage_error date_range_query (make_world empty_tables api) = None"
  "storage_error date_range_query (make_world january_orders api) = None"
  unfolding date_range_query_def
  by (rule select_storage_ok;
      simp add: world_of_examples empty_tables_rows january_rows fetch_rows_def decodable_def)+

lemma orders_query_storage_ok:
  "storage_error orders_over_time_query (make_world empty_tables api) = None"
  "storage_error orders_over_time_query (make_world january_orders api) = None"
  unfolding orders_over_time_query_def
  by (rule select_storage_ok;
      simp add: world_of_examples empty_tables_rows january_rows fetch_rows_def decodable_def)+


lemma empty_tables_results:
  "fst (query_db orders_over_time_query (make_world empty_tables api)) = Inr []"
  "fst (query_db low_stock_levels_query (make_world empty_tables api)) = Inr []"
  "fst (query_db most_popular_products_query (make_world empty_tables api)) = Inr []"
  "fst (query_db payment_method_popularity_query (make_world empty_tables api)) = Inr []"
  unfolding orders_over_time_query_def low_stock_levels_query_def
    most_popular_products_query_def payment_method_popularity_query_def
  by (rule select_result; simp add: world_of_examples empty_tables_rows fetch_rows_def)+

lemma eleven_products_result:
  "fst (query_db most_popular_products_query (make_world eleven_products api)) =
     Inr [(11, Some ''item'', Some 11), (10, Some ''item'', Some 10),
          (9, Some ''item'', Some 9), (8, Some ''item'', Some 8), (7, Some ''item'', Some 7),
          (6, Some ''item'', Some 6), (5, Some ''item'', Some 5), (4, Some ''item'', Some 4),
          (3, Some ''item'', Some 3), (2, Some ''item'', Some 2)]"
  unfolding most_popular_products_query_def
  by (rule select_result;
      simp add: world_of_examples eleven_products_rows fetch_rows_def decodable_def)

lemma missing_file_storage_error:
  "storage_error query missing_file_world = Some (OperationalError ''no such table: orders'')"
  by (simp add: storage_error_def missing_file_world_def make_world_def cursor_execute_def)

lemma missing_file_connects: "connect_failure missing_file_world = None"
  by (simp add: missing_file_world_def make_world_def)

lemma missing_file_events: "db_events missing_file_world = []"
  by (simp add: missing_file_world_def make_world_def)

section \<open>Failures of the storage layer\<close>

lemma view_raises_500:
  assumes "\<exists>w2. view w = (Inl (HTTPException 500 d), w2) \<and>
                 log w2 = log w @ [Log_error ''Database error: %s'' (Sqlite3_Error e), entry] \<and>
                 db w2 = db w \<and> http_calls w2 = http_calls w"
    and "dispatch_request path w = view w"
  shows "fst (handle_request path w) =
           \<lparr>status = 500, body = Json (J_obj [(''error'', J_str ''Internal server error'')])\<rparr> \<and>
         (\<exists>description entry.
            fst (dispatch_request path w) = Inl (HTTPException 500 description) \<and>
            log (snd (dispatch_request path w)) =
              log w @ [Log_error ''Database error: %s'' (Sqlite3_Error e), entry])"
proof -
  from assms obtain w2 where
    v: "dispatch_request path w = (Inl (HTTPException 500 d), w2)"
    and l: "log w2 = log w @ [Log_error ''Database error: %s'' (Sqlite3_Error e), entry]"
    by auto
  from handle_request_raised [OF v] v l show ?thesis by simp
qed

text \<open>
  Claim C2. On every route under \<^verbatim>\<open>/api/\<close>, whenever the storage layer raises an error
  (the connection cannot be opened, or the engine fails on the statement of the route,
  as it does when the database file is missing), the response has status 500 and the
  body \<^verbatim>\<open>{"error": "Internal server error"}\<close>. The view has left by an exception, and
  the log it leaves behind holds the error of the storage layer, written by
  \<^verbatim>\<open>query_db\<close>, followed by the entry of the view itself: the error is in the log
  before the error handler produces the response.
\<close>

theorem storage_failure_gives_500:
  assumes "path \<in> set api_routes" and "route_storage_error path w = Some e"
  shows "fst (handle_request path w) =
           \<lparr>status = 500, body = Json (J_obj [(''error'', J_str ''Internal server error'')])\<rparr> \<and>
         (\<exists>description entry.
            fst (dispatch_request path w) = Inl (HTTPException 500 description) \<and>
            log (snd (dispatch_request path w)) =
              log w @ [Log_error ''Database error: %s'' (Sqlite3_Error e), entry])"
proof -
  let ?goal = "\<lambda>p. route_storage_error p w = Some e \<longrightarrow>
    fst (handle_request p w) =
           \<lparr>status = 500, body = Json (J_obj [(''error'', J_str ''Internal server error'')])\<rparr> \<and>
         (\<exists>description entry.
            fst (dispatch_request p w) = Inl (HTTPException 500 description) \<and>
            log (snd (dispatch_request p w)) =
              log w @ [Log_error ''Database error: %s'' (Sqlite3_Error e), entry])"
  have 1: "?goal ''/api/temperature_over_time''"
    unfolding route_storage_error_simps
    using view_raises_500 [OF temperature_over_time_error dispatch_routes(2)] by (rule impI)
  have 2: "?goal ''/api/orders_over_time''"
    unfolding route_storage_error_simps
    using view_raises_500 [OF orders_over_time_error dispatch_routes(3)] by (rule impI)
  have 3: "?goal ''/api/low_stock_levels''"
    unfolding route_storage_error_simps
    using view_raises_500 [OF low_stock_levels_error dispatch_routes(4)] by (rule impI)
  have 4: "?goal ''/api/most_popular_products''"
    unfolding route_storage_error_simps
    using view_raises_500 [OF most_popular_products_error dispatch_routes(5)] by (rule impI)
  have 5: "?goal ''/api/payment_method_popularity''"
    unfolding route_storage_error_simps
    using view_raises_500 [OF payment_method_popularity_error dispatch_routes(6)] by (rule impI)
  have "\<forall>p \<in> set api_routes. ?goal p"
    unfolding api_routes_def list.set ball_simps by (intro conjI 1 2 3 4 5 TrueI)
  from this [rule_format, OF assms] show ?thesis .
qed

theorem storage_failure_gives_500_witness:
  "''/api/orders_over_time'' \<in> set api_routes \<and>
   route_storage_error ''/api/orders_over_time'' missing_file_world =
     Some (OperationalError ''no such table: orders'') \<and>
   fst (handle_request ''/api/orders_over_time'' missing_file_world) =
     \<lparr>status = 500, body = Json (J_obj [(''error'', J_str ''Internal server error'')])\<rparr>"
proof -
  have a: "''/api/orders_over_time'' \<in> set api_routes"
    by (simp add: api_routes_def)
  have b: "route_storage_error ''/api/orders_over_time'' missing_file_world =
             Some (OperationalError ''no such table: orders'')"
    by (simp add: route_storage_error_def missing_file_storage_error)
  from storage_failure_gives_500 [OF a b] a b show ?thesis by simp
qed

section \<open>The tables are only read\<close>

text \<open>
  Claim C9. Whatever the path of a request and whatever the state it meets, the content
  of the tables after the request is the content before it: the statements of the
  views are all SELECT statements, and \<^verbatim>\<open>query_db\<close> on a SELECT statement commits or
  rolls back a transaction that has written nothing.
\<close>

theorem requests_leave_tables_unchanged:
  "db (snd (handle_request path w)) = db w \<and> db (snd (query_db (Select f) w)) = db w"
proof
  show "db (snd (handle_request path w)) = db w"
    by (simp add: handle_request_world dispatch_request_def index_def abort_def
        temperature_over_time_db orders_over_time_db low_stock_levels_db
        most_popular_products_db payment_method_popularity_db)
  show "db (snd (query_db (Select f) w)) = db w"
  proof (cases "storage_error (Select f) w")
    case None
    from query_db_select_ok [OF this] show ?thesis by auto
  next
    case (Some e)
    from query_db_error [OF this] show ?thesis by auto
  qed
qed

section \<open>The temperature route\<close>

lemma temperature_over_time_relay:
  assumes "storage_error date_range_query w = None"
    and "weather_api w (temperature_params (sql_min (map order_date (orders (db w))))
                                           (sql_max (map order_date (orders (db w))))) =
           Reply code (Some j)"
    and "\<not> (400 \<le> code \<and> code < 600)"
  shows "temperature_over_time w =
           (Inr (jsonify j),
            w\<lparr>db_events := db_events w @ [Connect, Execute, Fetchall, Commit],
              http_calls := http_calls w @
                [temperature_params (sql_min (map order_date (orders (db w))))
                                    (sql_max (map order_date (orders (db w))))]\<rparr>)"
  using assms(2) assms(3)
  by (simp add: temperature_over_time_def temperature_try_def date_range_ok [OF assms(1)]
      date_range_rows_def requests_get_def raise_for_status_def response_json_def)

lemma external_failure_modes:
  assumes "outcome = Network_failure \<or>
           (\<exists>code content. outcome = Reply code content \<and>
              (400 \<le> code \<and> code < 600 \<or> content = None))"
  shows "\<exists>ex. external_failure outcome = Some ex"
proof (cases outcome)
  case Network_failure
  then show ?thesis by (simp add: external_failure_simps)
next
  case (Reply code content)
  with assms have "400 \<le> code \<and> code < 600 \<or> content = None" by simp
  then show ?thesis unfolding Reply
    by (cases "400 \<le> code \<and> code < 600"; cases content)
       (simp_all add: external_failure_simps)
qed

text \<open>
  Claim C1, as the spec states it, fails: with an empty orders table the statement still
  returns one row, \<open>(NULL, NULL)\<close>, and the view sends its request to the archive with
  both dates \<open>None\<close>. Where the archive rejects the request the response is 500, but a
  request has been issued; where the archive answers with JSON the response is 200.
\<close>

theorem empty_orders_counterexample:
  "http_calls (snd (handle_request ''/api/temperature_over_time''
                      (make_world empty_tables archive_rejects))) =
     [temperature_params None None] \<and>
   status (fst (handle_request ''/api/temperature_over_time''
                  (make_world empty_tables archive_rejects))) = 500 \<and>
   status (fst (handle_request ''/api/temperature_over_time''
                  (make_world empty_tables archive_answers))) = 200"
proof -
  have o: "orders (db (make_world empty_tables api)) = []" for api
    by (simp add: world_of_examples empty_tables_def)
  have r: "external_failure
             (weather_api (make_world empty_tables archive_rejects)
                (temperature_params
                   (sql_min (map order_date (orders (db (make_world empty_tables archive_rejects)))))
                   (sql_max (map order_date (orders (db (make_world empty_tables archive_rejects)))))))
           = Some (HTTPError 400)"
    by (simp add: world_of_examples archive_rejects_def external_failure_simps)
  have a: "external_failure
             (weather_api (make_world empty_tables archive_answers)
                (temperature_params
                   (sql_min (map order_date (orders (db (make_world empty_tables archive_answers)))))
                   (sql_max (map order_date (orders (db (make_world empty_tables archive_answers)))))))
           = None"
    by (simp add: world_of_examples archive_answers_def external_failure_simps)
  from temperature_over_time_failure [OF date_range_storage_ok(1) r]
  have 1: "handle_request ''/api/temperature_over_time'' (make_world empty_tables archive_rejects) =
       (\<lparr>status = 500, body = Json (J_obj [(''error'', J_str ''Internal server error'')])\<rparr>,
        (make_world empty_tables archive_rejects)
          \<lparr>db_events := [Connect, Execute, Fetchall, Commit],
            http_calls := [temperature_params None None],
            log := [Log_error ''Error in /api/temperature_over_time: %s'' (HTTPError 400)]\<rparr>)"
    by (simp add: handle_request_raised dispatch_routes world_of_examples empty_tables_def)
  from temperature_over_time_success [OF date_range_storage_ok(1) a]
  obtain j w2 where
    "dispatch_request ''/api/temperature_over_time'' (make_world empty_tables archive_answers) =
       (Inr (jsonify j), w2)"
    unfolding dispatch_routes by blast
  then have 2: "status (fst (handle_request ''/api/temperature_over_time''
                  (make_world empty_tables archive_answers))) = 200"
    by (simp add: handle_request_def jsonify_def)
  from 1 2 show ?thesis by simp
qed

text \<open>
  Claim C1, amended. With an empty orders table and a storage layer that raises no
  error, the view issues exactly one request to the archive, with start and end date
  both null. When that call fails (no answer from the archive, an answer with a code
  from 400 to 599, or an answer whose body is not JSON) the response is the uniform one
  with status 500; otherwise the JSON of the archive is relayed with status 200.
\<close>

theorem empty_orders_calls_archive:
  assumes "storage_error date_range_query w = None" and "orders (db w) = []"
  shows "http_calls (snd (handle_request ''/api/temperature_over_time'' w)) =
           http_calls w @ [temperature_params None None] \<and>
         (weather_api w (temperature_params None None) = Network_failure \<or>
          (\<exists>code content.
             weather_api w (temperature_params None None) = Reply code content \<and>
             (400 \<le> code \<and> code < 600 \<or> content = None)) \<longrightarrow>
          fst (handle_request ''/api/temperature_over_time'' w) =
            \<lparr>status = 500,
             body = Json (J_obj [(''error'', J_str ''Internal server error'')])\<rparr>) \<and>
         (\<forall>code j.
            weather_api w (temperature_params None None) = Reply code (Some j) \<and>
            \<not> (400 \<le> code \<and> code < 600) \<longrightarrow>
            fst (handle_request ''/api/temperature_over_time'' w) =
              \<lparr>status = 200, body = Json j\<rparr>)"
proof -
  let ?outcome = "weather_api w (temperature_params None None)"
  from assms(2) have p: "temperature_params (sql_min (map order_date (orders (db w))))
                           (sql_max (map order_date (orders (db w)))) =
                         temperature_params None None"
    by simp
  have calls: "http_calls (snd (handle_request ''/api/temperature_over_time'' w)) =
                 http_calls w @ [temperature_params None None]"
  proof (cases "external_failure ?outcome")
    case (Some ex)
    from temperature_over_time_failure [OF assms(1), unfolded p, OF this] show ?thesis
      by (simp add: handle_request_raised dispatch_routes)
  next
    case None
    from temperature_over_time_success [OF assms(1), unfolded p, OF this] show ?thesis
      by (auto simp: handle_request_def dispatch_routes)
  qed
  have fails: "fst (handle_request ''/api/temperature_over_time'' w) =
            \<lparr>status = 500,
             body = Json (J_obj [(''error'', J_str ''Internal server error'')])\<rparr>"
    if "?outcome = Network_failure \<or>
          (\<exists>code content. ?outcome = Reply code content \<and>
             (400 \<le> code \<and> code < 600 \<or> content = None))"
  proof -
    from external_failure_modes [OF that] obtain ex where
      "external_failure ?outcome = Some ex" by blast
    from temperature_over_time_failure [OF assms(1), unfolded p, OF this] show ?thesis
      by (simp add: handle_request_raised dispatch_routes)
  qed
  have relays: "fst (handle_request ''/api/temperature_over_time'' w) =
              \<lparr>status = 200, body = Json j\<rparr>"
    if "?outcome = Reply code (Some j) \<and> \<not> (400 \<le> code \<and> code < 600)" for code j
  proof -
    from that have o: "?outcome = Reply code (Some j)"
      and c: "\<not> (400 \<le> code \<and> code < 600)" by simp_all
    from temperature_over_time_relay [OF assms(1), unfolded p, OF o c] show ?thesis
      by (simp add: handle_request_def dispatch_routes jsonify_def)
  qed
  from calls fails relays show ?thesis by blast
qed

theorem empty_orders_calls_archive_witness:
  "storage_error date_range_query (make_world empty_tables archive_rejects) = None \<and>
   orders (db (make_world empty_tables archive_rejects)) = [] \<and>
   weather_api (make_world empty_tables archive_rejects) (temperature_params None None) =
     Reply 400 (Some (J_obj [(''error'', J_str ''true'')])) \<and>
   http_calls (snd (handle_request ''/api/temperature_over_time''
                      (make_world empty_tables archive_rejects))) =
     [temperature_params None None] \<and>
   fst (handle_request ''/api/temperature_over_time''
          (make_world empty_tables archive_rejects)) =
     \<lparr>status = 500, body = Json (J_obj [(''error'', J_str ''Internal server error'')])\<rparr> \<and>
   storage_error date_range_query (make_world empty_tables archive_answers) = None \<and>
   orders (db (make_world empty_tables archive_answers)) = [] \<and>
   weather_api (make_world empty_tables archive_answers) (temperature_params None None) =
     Reply 200 (Some (J_obj [(''daily'', J_obj [])])) \<and>
   fst (handle_request ''/api/temperature_over_time''
          (make_world empty_tables archive_answers)) =
     \<lparr>status = 200, body = Json (J_obj [(''daily'', J_obj [])])\<rparr>"
proof -
  have o: "orders (db (make_world empty_tables api)) = []" for api
    by (simp add: world_of_examples empty_tables_def)
  have r: "weather_api (make_world empty_tables archive_rejects)
             (temperature_params None None) =
           Reply 400 (Some (J_obj [(''error'', J_str ''true'')]))"
    by (simp add: world_of_examples archive_rejects_def)
  have a: "weather_api (make_world empty_tables archive_answers)
             (temperature_params None None) =
           Reply 200 (Some (J_obj [(''daily'', J_obj [])]))"
    by (simp add: world_of_examples archive_answers_def)
  from empty_orders_calls_archive [OF date_range_storage_ok(1) o, of archive_rejects]
    empty_orders_calls_archive [OF date_range_storage_ok(1) o, of archive_answers]
    o [of archive_rejects] o [of archive_answers] r a
  show ?thesis
    by (simp add: date_range_storage_ok world_of_examples)
qed

text \<open>
  Claim C3, as the spec states it, fails: the description given to \<^verbatim>\<open>abort\<close> stays on the
  exception, and the handler registered for 500 answers with the same body as for every
  other failure. Besides, \<^verbatim>\<open>raise_for_status\<close> raises for the codes 400 to 599 only: a
  reply with code 300 and a JSON body is relayed with status 200.
\<close>

theorem temperature_message_counterexample:
  "fst (handle_request ''/api/temperature_over_time'' (make_world january_orders archive_down)) =
     \<lparr>status = 500, body = Json (J_obj [(''error'', J_str ''Internal server error'')])\<rparr> \<and>
   status (fst (handle_request ''/api/temperature_over_time''
                  (make_world january_orders archive_multiple_choices))) = 200"
proof -
  have d: "external_failure
             (weather_api (make_world january_orders archive_down)
                (temperature_params
                   (sql_min (map order_date (orders (db (make_world january_orders archive_down)))))
                   (sql_max (map order_date (orders (db (make_world january_orders archive_down)))))))
           = Some ConnectionError"
    by (simp add: world_of_examples archive_down_def external_failure_simps)
  have m: "external_failure
             (weather_api (make_world january_orders archive_multiple_choices)
                (temperature_params
                   (sql_min (map order_date
                      (orders (db (make_world january_orders archive_multiple_choices)))))
                   (sql_max (map order_date
                      (orders (db (make_world january_orders archive_multiple_choices)))))))
           = None"
    by (simp add: world_of_examples archive_multiple_choices_def external_failure_simps)
  from temperature_over_time_failure [OF date_range_storage_ok(2) d]
  have 1: "fst (handle_request ''/api/temperature_over_time''
                  (make_world january_orders archive_down)) =
       \<lparr>status = 500, body = Json (J_obj [(''error'', J_str ''Internal server error'')])\<rparr>"
    by (simp add: handle_request_raised dispatch_routes)
  from temperature_over_time_success [OF date_range_storage_ok(2) m]
  obtain j w2 where
    "dispatch_request ''/api/temperature_over_time''
       (make_world january_orders archive_multiple_choices) = (Inr (jsonify j), w2)"
    unfolding dispatch_routes by blast
  then have 2: "status (fst (handle_request ''/api/temperature_over_time''
                  (make_world january_orders archive_multiple_choices))) = 200"
    by (simp add: handle_request_def jsonify_def)
  from 1 2 show ?thesis by simp
qed

text \<open>
  Claim C3, amended. When the statement of the view succeeds and the external call
  fails (no answer from the archive, an answer with a code from 400 to 599, or an answer
  whose body is not JSON), the view aborts with status 500 and the description
  "Error fetching temperature data.", the response sent is the uniform one, with body
  \<^verbatim>\<open>{"error": "Internal server error"}\<close>, and the view has added one entry to the log,
  which holds the exception of the external call.
\<close>

theorem external_failure_gives_uniform_500:
  assumes "storage_error date_range_query w = None"
    and "weather_api w (temperature_params (sql_min (map order_date (orders (db w))))
                                           (sql_max (map order_date (orders (db w))))) =
           Network_failure \<or>
         (\<exists>code content.
            weather_api w (temperature_params (sql_min (map order_date (orders (db w))))
                                              (sql_max (map order_date (orders (db w))))) =
              Reply code content \<and>
            (400 \<le> code \<and> code < 600 \<or> content = None))"
  shows "fst (handle_request ''/api/temperature_over_time'' w) =
           \<lparr>status = 500, body = Json (J_obj [(''error'', J_str ''Internal server error'')])\<rparr> \<and>
         fst (dispatch_request ''/api/temperature_over_time'' w) =
           Inl (HTTPException 500 ''Error fetching temperature data.'') \<and>
         (\<exists>ex. log (snd (handle_request ''/api/temperature_over_time'' w)) =
                 log w @ [Log_error ''Error in /api/temperature_over_time: %s'' ex])"
proof -
  let ?outcome = "weather_api w (temperature_params (sql_min (map order_date (orders (db w))))
                                           (sql_max (map order_date (orders (db w)))))"
  have "external_failure ?outcome \<noteq> None"
  proof (cases ?outcome)
    case Network_failure
    then show ?thesis by (simp add: external_failure_simps)
  next
    case (Reply code content)
    with assms(2) have "400 \<le> code \<and> code < 600 \<or> content = None" by simp
    then show ?thesis unfolding Reply
      by (cases "400 \<le> code \<and> code < 600"; cases content)
         (simp_all add: external_failure_simps)
  qed
  then obtain ex where "external_failure ?outcome = Some ex"
    by (cases "external_failure ?outcome") simp_all
  from temperature_over_time_failure [OF assms(1) this] show ?thesis
    by (simp add: handle_request_raised dispatch_routes)
qed

theorem external_failure_gives_uniform_500_witness:
  "storage_error date_range_query (make_world january_orders archive_down) = None \<and>
   weather_api (make_world january_orders archive_down)
     (temperature_params
        (sql_min (map order_date (orders (db (make_world january_orders archive_down)))))
        (sql_max (map order_date (orders (db (make_world january_orders archive_down)))))) =
     Network_failure \<and>
   fst (handle_request ''/api/temperature_over_time'' (make_world january_orders archive_down)) =
     \<lparr>status = 500, body = Json (J_obj [(''error'', J_str ''Internal server error'')])\<rparr> \<and>
   fst (dispatch_request ''/api/temperature_over_time'' (make_world january_orders archive_down)) =
     Inl (HTTPException 500 ''Error fetching temperature data.'')"
proof -
  have n: "weather_api (make_world january_orders archive_down)
     (temperature_params
        (sql_min (map order_date (orders (db (make_world january_orders archive_down)))))
        (sql_max (map order_date (orders (db (make_world january_orders archive_down)))))) =
     Network_failure"
    by (simp add: world_of_examples archive_down_def)
  from external_failure_gives_uniform_500 [OF date_range_storage_ok(2) disjI1, OF n] n
  show ?thesis by (simp add: date_range_storage_ok)
qed

section \<open>The connection of query\_db\<close>

lemma query_db_events_connect_fails:
  "connect_failure w = Some e \<Longrightarrow> db_events (snd (query_db query w)) = db_events w"
  by (simp add: query_db_def logging_error_def)

lemma query_db_events_ok:
  assumes "storage_error query w = None"
  shows "db_events (snd (query_db query w)) = db_events w @ [Connect, Execute, Fetchall, Commit]"
  using assms
proof (cases rule: storage_ok_cases)
  case (1 result t rows)
  then show ?thesis by (simp add: query_db_def db_event_def)
qed

lemma query_db_events_execute_fails:
  assumes "connect_failure w = None" and "cursor_execute query w = Inl e"
  shows "db_events (snd (query_db query w)) = db_events w @ [Connect, Execute, Rollback]"
  using assms by (simp add: query_db_def db_event_def logging_error_def)

lemma query_db_events_fetchall_fails:
  assumes "connect_failure w = None" and "cursor_execute query w = Inr (result, t)"
    and "cursor_fetchall result = Inl e"
  shows "db_events (snd (query_db query w)) =
           db_events w @ [Connect, Execute, Fetchall, Rollback]"
  using assms by (simp add: query_db_def db_event_def logging_error_def)

lemma query_db_never_closes:
  "(Close \<in> set (db_events (snd (query_db query w)))) = (Close \<in> set (db_events w))"
proof (cases "storage_error query w")
  case None
  then show ?thesis by (simp add: query_db_events_ok)
next
  case (Some e)
  then show ?thesis
    by (cases rule: storage_error_cases)
       (simp_all add: query_db_events_connect_fails query_db_events_execute_fails
          query_db_events_fetchall_fails)
qed

lemma missing_file_execute:
  "cursor_execute query missing_file_world = Inl (OperationalError ''no such table: orders'')"
  by (simp add: missing_file_world_def make_world_def cursor_execute_def)

lemma undecodable_orders_execute:
  "cursor_execute orders_over_time_query (make_world undecodable_orders api) =
     Inr (Undecodable (Could_not_decode ''order_date'' [CHR 0xFF]), undecodable_orders)"
  by (simp add: cursor_execute_def world_of_examples orders_over_time_query_def
      orders_over_time_rows_def undecodable_orders_def empty_tables_def group_by_def
      order_by_asc_def sql_count_def fetch_rows_def decodable_def)

text \<open>
  Claim C4 says that on every exit path of \<^verbatim>\<open>query_db\<close> the connection opened for the
  call is closed before the call returns or propagates the failure. The code does not do
  this: the \<^verbatim>\<open>with\<close> block that holds the connection ends the transaction and leaves the
  connection open, and no exit path calls \<^verbatim>\<open>close\<close>. The calls made on the connection
  when the statement of \<^verbatim>\<open>/api/orders_over_time\<close> succeeds on empty tables, when
  \<^verbatim>\<open>execute\<close> raises because the table is missing, and when \<^verbatim>\<open>fetchall\<close> raises because a
  date is not UTF-8:
\<close>

theorem connection_left_open:
  "db_events (snd (query_db orders_over_time_query (make_world empty_tables archive_down))) =
     [Connect, Execute, Fetchall, Commit] \<and>
   db_events (snd (query_db orders_over_time_query missing_file_world)) =
     [Connect, Execute, Rollback] \<and>
   db_events (snd (query_db orders_over_time_query
                     (make_world undecodable_orders archive_down))) =
     [Connect, Execute, Fetchall, Rollback]"
  using query_db_events_ok [OF orders_query_storage_ok(1), of archive_down]
    query_db_events_execute_fails [OF missing_file_connects missing_file_execute,
      of orders_over_time_query]
    query_db_events_fetchall_fails [OF world_of_examples(1) undecodable_orders_execute,
      of "Could_not_decode ''order_date'' [CHR 0xFF]" archive_down]
  by (simp add: world_of_examples missing_file_events cursor_fetchall_def)

section \<open>The shape of the responses of the four SQL-only routes\<close>

lemma response_arrays_simps:
  "response_arrays (jsonify (J_obj [(k1, J_arr xs), (k2, J_arr ys)])) = [xs, ys]"
  "response_arrays (jsonify (J_obj [(k1, J_arr xs), (k2, J_arr ys), (k3, J_arr zs)])) =
     [xs, ys, zs]"
  "response_arrays \<lparr>status = 500, body = Json (J_obj [(k, J_str s)])\<rparr> = []"
  by (simp_all add: response_arrays_def jsonify_def)

lemma orders_over_time_empty:
  assumes "fst (query_db orders_over_time_query w) = Inr []"
  shows "fst (handle_request ''/api/orders_over_time'' w) =
           \<lparr>status = 200, body = Json (J_obj [(''dates'', J_arr []), (''counts'', J_arr [])])\<rparr>"
proof -
  from query_db_result [OF assms] obtain w1 where
    "query_db orders_over_time_query w = (Inr [], w1)" by blast
  then show ?thesis
    by (simp add: handle_request_def dispatch_routes orders_over_time_def jsonify_def)
qed

lemma low_stock_levels_empty:
  assumes "fst (query_db low_stock_levels_query w) = Inr []"
  shows "fst (handle_request ''/api/low_stock_levels'' w) =
           \<lparr>status = 200,
            body = Json (J_obj [(''products'', J_arr []), (''quantities'', J_arr [])])\<rparr>"
proof -
  from query_db_result [OF assms] obtain w1 where
    "query_db low_stock_levels_query w = (Inr [], w1)" by blast
  then show ?thesis
    by (simp add: handle_request_def dispatch_routes low_stock_levels_def jsonify_def)
qed

lemma most_popular_products_empty:
  assumes "fst (query_db most_popular_products_query w) = Inr []"
  shows "fst (handle_request ''/api/most_popular_products'' w) =
           \<lparr>status = 200,
            body = Json (J_obj [(''product_ids'', J_arr []), (''product_names'', J_arr []),
                                (''totals'', J_arr [])])\<rparr>"
proof -
  from query_db_result [OF assms] obtain w1 where
    "query_db most_popular_products_query w = (Inr [], w1)" by blast
  then show ?thesis
    by (simp add: handle_request_def dispatch_routes most_popular_products_def jsonify_def)
qed

lemma payment_method_popularity_empty:
  assumes "fst (query_db payment_method_popularity_query w) = Inr []"
  shows "fst (handle_request ''/api/payment_method_popularity'' w) =
           \<lparr>status = 200, body = Json (J_obj [(''methods'', J_arr []), (''counts'', J_arr [])])\<rparr>"
proof -
  from query_db_result [OF assms] obtain w1 where
    "query_db payment_method_popularity_query w = (Inr [], w1)" by blast
  then show ?thesis
    by (simp add: handle_request_def dispatch_routes payment_method_popularity_def jsonify_def)
qed

text \<open>
  Claim C8. On each of the four SQL-only routes, when \<^verbatim>\<open>query_db\<close> returns no row, the
  view succeeds: the response has status 200 and its body is the JSON object of the
  route with every array empty.
\<close>

theorem empty_result_gives_empty_arrays:
  "(fst (query_db orders_over_time_query w) = Inr [] \<longrightarrow>
      fst (handle_request ''/api/orders_over_time'' w) =
        \<lparr>status = 200, body = Json (J_obj [(''dates'', J_arr []), (''counts'', J_arr [])])\<rparr>) \<and>
   (fst (query_db low_stock_levels_query w) = Inr [] \<longrightarrow>
      fst (handle_request ''/api/low_stock_levels'' w) =
        \<lparr>status = 200,
         body = Json (J_obj [(''products'', J_arr []), (''quantities'', J_arr [])])\<rparr>) \<and>
   (fst (query_db most_popular_products_query w) = Inr [] \<longrightarrow>
      fst (handle_request ''/api/most_popular_products'' w) =
        \<lparr>status = 200,
         body = Json (J_obj [(''product_ids'', J_arr []), (''product_names'', J_arr []),
                             (''totals'', J_arr [])])\<rparr>) \<and>
   (fst (query_db payment_method_popularity_query w) = Inr [] \<longrightarrow>
      fst (handle_request ''/api/payment_method_popularity'' w) =
        \<lparr>status = 200, body = Json (J_obj [(''methods'', J_arr []), (''counts'', J_arr [])])\<rparr>)"
  by (intro conjI impI orders_over_time_empty low_stock_levels_empty
      most_popular_products_empty payment_method_popularity_empty)

theorem empty_result_gives_empty_arrays_witness:
  "fst (query_db orders_over_time_query (make_world empty_tables archive_down)) = Inr [] \<and>
   fst (handle_request ''/api/orders_over_time'' (make_world empty_tables archive_down)) =
     \<lparr>status = 200, body = Json (J_obj [(''dates'', J_arr []), (''counts'', J_arr [])])\<rparr> \<and>
   fst (query_db low_stock_levels_query (make_world empty_tables archive_down)) = Inr [] \<and>
   fst (handle_request ''/api/low_stock_levels'' (make_world empty_tables archive_down)) =
     \<lparr>status = 200,
      body = Json (J_obj [(''products'', J_arr []), (''quantities'', J_arr [])])\<rparr> \<and>
   fst (query_db most_popular_products_query (make_world empty_tables archive_down)) = Inr [] \<and>
   fst (handle_request ''/api/most_popular_products'' (make_world empty_tables archive_down)) =
     \<lparr>status = 200,
      body = Json (J_obj [(''product_ids'', J_arr []), (''product_names'', J_arr []),
                          (''totals'', J_arr [])])\<rparr> \<and>
   fst (query_db payment_method_popularity_query (make_world empty_tables archive_down)) = Inr [] \<and>
   fst (handle_request ''/api/payment_method_popularity'' (make_world empty_tables archive_down)) =
     \<lparr>status = 200, body = Json (J_obj [(''methods'', J_arr []), (''counts'', J_arr [])])\<rparr>"
  using empty_result_gives_empty_arrays [of "make_world empty_tables archive_down"]
  by (simp add: empty_tables_results)

text \<open>
  Claim C10. On each of the four SQL-only routes and in every state, all the arrays of
  the response have the same length. When the storage layer raises no error the
  response has status 200 and holds the arrays of the route, two or three of them, each
  the projection of one column of the same rows; otherwise it is the error response,
  which holds no array.
\<close>

theorem arrays_have_equal_length:
  assumes "path \<in> set sql_only_routes"
  shows "(\<forall>a \<in> set (response_arrays (fst (handle_request path w))).
            \<forall>b \<in> set (response_arrays (fst (handle_request path w))). length a = length b) \<and>
         (route_storage_error path w = None \<longrightarrow>
            status (fst (handle_request path w)) = 200 \<and>
            2 \<le> length (response_arrays (fst (handle_request path w))))"
proof -
  let ?goal = "\<lambda>p.
    (\<forall>a \<in> set (response_arrays (fst (handle_request p w))).
       \<forall>b \<in> set (response_arrays (fst (handle_request p w))). length a = length b) \<and>
    (route_storage_error p w = None \<longrightarrow>
       status (fst (handle_request p w)) = 200 \<and>
       2 \<le> length (response_arrays (fst (handle_request p w))))"
  have 1: "?goal ''/api/orders_over_time''"
  proof (cases "storage_error orders_over_time_query w")
    case None
    from orders_over_time_ok [OF this] None show ?thesis
      by (simp add: handle_request_def dispatch_routes route_storage_error_simps
          response_arrays_simps) (simp add: jsonify_def)
  next
    case (Some e)
    from orders_over_time_error [OF this] obtain w2 where
      "dispatch_request ''/api/orders_over_time'' w =
         (Inl (HTTPException 500 ''Error fetching orders over time''), w2)"
      unfolding dispatch_routes by blast
    from handle_request_raised [OF this] Some show ?thesis
      by (simp add: route_storage_error_simps response_arrays_simps)
  qed
  have 2: "?goal ''/api/low_stock_levels''"
  proof (cases "storage_error low_stock_levels_query w")
    case None
    from low_stock_levels_ok [OF this] None show ?thesis
      by (simp add: handle_request_def dispatch_routes route_storage_error_simps
          response_arrays_simps) (simp add: jsonify_def)
  next
    case (Some e)
    from low_stock_levels_error [OF this] obtain w2 where
      "dispatch_request ''/api/low_stock_levels'' w =
         (Inl (HTTPException 500 ''Error fetching low stock levels''), w2)"
      unfolding dispatch_routes by blast
    from handle_request_raised [OF this] Some show ?thesis
      by (simp add: route_storage_error_simps response_arrays_simps)
  qed
  have 3: "?goal ''/api/most_popular_products''"
  proof (cases "storage_error most_popular_products_query w")
    case None
    from most_popular_products_ok [OF this] obtain rows where
      "most_popular_products w =
         (Inr (jsonify (J_obj
            [(''product_ids'', J_arr (map J_int (map fst rows))),
             (''product_names'', J_arr (map j_text (map (\<lambda>row. fst (snd row)) rows))),
             (''totals'', J_arr (map j_int (map (\<lambda>row. snd (snd row)) rows)))])),
          w\<lparr>db_events := db_events w @ [Connect, Execute, Fetchall, Commit]\<rparr>)"
      by blast
    with None show ?thesis
      by (simp add: handle_request_def dispatch_routes route_storage_error_simps
          response_arrays_simps) (simp add: jsonify_def)
  next
    case (Some e)
    from most_popular_products_error [OF this] obtain w2 where
      "dispatch_request ''/api/most_popular_products'' w =
         (Inl (HTTPException 500 ''Error fetching most popular products''), w2)"
      unfolding dispatch_routes by blast
    from handle_request_raised [OF this] Some show ?thesis
      by (simp add: route_storage_error_simps response_arrays_simps)
  qed
  have 4: "?goal ''/api/payment_method_popularity''"
  proof (cases "storage_error payment_method_popularity_query w")
    case None
    from payment_method_popularity_ok [OF this] None show ?thesis
      by (simp add: handle_request_def dispatch_routes route_storage_error_simps
          response_arrays_simps) (simp add: jsonify_def)
  next
    case (Some e)
    from payment_method_popularity_error [OF this] obtain w2 where
      "dispatch_request ''/api/payment_method_popularity'' w =
         (Inl (HTTPException 500 ''Error fetching payment method popularity''), w2)"
      unfolding dispatch_routes by blast
    from handle_request_raised [OF this] Some show ?thesis
      by (simp add: route_storage_error_simps response_arrays_simps)
  qed
  have "\<forall>p \<in> set sql_only_routes. ?goal p"
    unfolding sql_only_routes_def list.set ball_simps by (intro conjI 1 2 3 4 TrueI)
  from this [rule_format, OF assms] show ?thesis .
qed

theorem arrays_have_equal_length_witness:
  "''/api/orders_over_time'' \<in> set sql_only_routes \<and>
   route_storage_error ''/api/orders_over_time'' (make_world january_orders archive_down) = None \<and>
   status (fst (handle_request ''/api/orders_over_time''
                  (make_world january_orders archive_down))) = 200 \<and>
   2 \<le> length (response_arrays (fst (handle_request ''/api/orders_over_time''
                  (make_world january_orders archive_down))))"
proof -
  have a: "''/api/orders_over_time'' \<in> set sql_only_routes"
    by (simp add: sql_only_routes_def)
  have b: "route_storage_error ''/api/orders_over_time''
             (make_world january_orders archive_down) = None"
    by (simp add: route_storage_error_simps orders_query_storage_ok(2))
  from arrays_have_equal_length [OF a, of "make_world january_orders archive_down"] a b
  show ?thesis by simp
qed

section \<open>Grouping and ordering\<close>

lemma map_insort_key: "map f (insort_key f x xs) = insort (f x) (map f xs)"
  by (induction xs) simp_all

lemma map_sort_key: "map f (sort_key f xs) = sort (map f xs)"
  by (induction xs) (simp_all add: map_insort_key)

lemma group_by_keys: "map fst (group_by key rows) = remdups (map key rows)"
  by (simp add: group_by_def comp_def)

lemma group_by_member:
  "(k, g) \<in> set (group_by key rows) \<Longrightarrow> g = filter (\<lambda>r. key r = k) rows \<and> k \<in> key ` set rows"
  by (auto simp: group_by_def)

lemma sql_count_not_null: "sql_count (map (\<lambda>r. Some (f r)) rows) = int (length rows)"
  by (simp add: sql_count_def)




lemma inner_join_product:
  "inner_join xs ys on = filter (\<lambda>(x, y). on x y) (List.product xs ys)"
  by (induction xs) (simp_all add: inner_join_def filter_map comp_def)

lemma collect_rows: "collect rs = Inr vs \<Longrightarrow> rs = map Inr vs"
proof (induction rs arbitrary: vs)
  case Nil
  then show ?case by simp
next
  case (Cons r rs)
  then show ?case
    by (cases r; cases "collect rs") auto
qed

lemma sum_from_value:
  assumes "sum_from acc vs = Inr r"
  shows "r = (if filter (\<lambda>v. v \<noteq> None) vs = [] then acc
              else Some ((case acc of None \<Rightarrow> 0 | Some a \<Rightarrow> a) +
                         sum_list (map the (filter (\<lambda>v. v \<noteq> None) vs))))"
  using assms
proof (induction acc vs rule: sum_from.induct)
  case (1 acc)
  then show ?case by simp
next
  case (2 acc vs)
  then show ?case by simp
next
  case (3 acc v vs)
  let ?running = "(case acc of None \<Rightarrow> 0 | Some a \<Rightarrow> a) + v"
  from "3.prems" have range: "int64_range ?running"
    by (simp add: Let_def split: if_splits)
  with "3.prems" have "sum_from (Some ?running) vs = Inr r"
    by (simp add: Let_def)
  from "3.IH" [OF refl range this] show ?case
    by (simp add: add.assoc)
qed





section \<open>Orders over time\<close>

lemma orders_over_time_dates:
  "map fst (orders_over_time_rows t) = sort (remdups (map order_date (orders t)))"
proof -
  have "map fst (map (\<lambda>(d, g). (d, sql_count (map (\<lambda>r. Some (order_id r)) g)))
                     (group_by order_date (orders t))) =
        map fst (group_by order_date (orders t))"
    by (simp add: comp_def case_prod_unfold)
  then show ?thesis
    by (simp add: orders_over_time_rows_def order_by_asc_def map_sort_key group_by_keys)
qed

lemma orders_over_time_row:
  assumes "(d, c) \<in> set (orders_over_time_rows t)"
  shows "c = int (length (filter (\<lambda>r. order_date r = d) (orders t)))"
proof -
  from assms obtain g where "(d, g) \<in> set (group_by order_date (orders t))"
    and "c = sql_count (map (\<lambda>r. Some (order_id r)) g)"
    by (auto simp: orders_over_time_rows_def order_by_asc_def)
  then show ?thesis
    using group_by_member [of d g order_date "orders t"] by (simp add: sql_count_not_null)
qed

lemma orders_over_time_counts:
  assumes "i < length (orders_over_time_rows t)"
  shows "map snd (orders_over_time_rows t) ! i =
           int (length (filter (\<lambda>r. order_date r = map fst (orders_over_time_rows t) ! i)
                               (orders t)))"
proof -
  from assms have "orders_over_time_rows t ! i \<in> set (orders_over_time_rows t)"
    by simp
  then have "(fst (orders_over_time_rows t ! i), snd (orders_over_time_rows t ! i))
               \<in> set (orders_over_time_rows t)"
    by simp
  from orders_over_time_row [OF this] assms show ?thesis by simp
qed

text \<open>Two orders on one date and one order on a later date, in any order of the rows.\<close>

lemma two_and_one:
  assumes "map order_date os = [a, a, b] \<or> map order_date os = [a, b, a] \<or>
           map order_date os = [b, a, a]"
    and "a < b"
  shows "order_by_asc fst
           (map (\<lambda>(d, g). (d, sql_count (map (\<lambda>r. Some (order_id r)) g)))
                (group_by order_date os)) = [(a, 2), (b, 1)]"
proof -
  from assms(1) obtain o1 o2 o3 where os: "os = [o1, o2, o3]"
    by (cases os; cases "tl os"; cases "tl (tl os)") auto
  from assms(2) have ne: "a \<noteq> b" "b \<noteq> a" "\<not> b \<le> a" "a \<le> b"
    by simp_all
  from assms(1) show ?thesis
  proof (elim disjE)
    assume "map order_date os = [a, a, b]"
    with os have "order_date o1 = a" "order_date o2 = a" "order_date o3 = b" by simp_all
    with ne show ?thesis
      by (simp add: os group_by_def order_by_asc_def sql_count_def)
  next
    assume "map order_date os = [a, b, a]"
    with os have "order_date o1 = a" "order_date o2 = b" "order_date o3 = a" by simp_all
    with ne show ?thesis
      by (simp add: os group_by_def order_by_asc_def sql_count_def)
  next
    assume "map order_date os = [b, a, a]"
    with os have "order_date o1 = b" "order_date o2 = a" "order_date o3 = a" by simp_all
    with ne show ?thesis
      by (simp add: os group_by_def order_by_asc_def sql_count_def)
  qed
qed

lemma january_before: "Some ''2024-01-01'' < Some ''2024-01-02''"
  by (simp add: less_char_def)

text \<open>
  Claim C7. When the orders table holds exactly two orders dated 2024-01-01 and one
  order dated 2024-01-02, in whatever order of the rows, the response of
  \<^verbatim>\<open>/api/orders_over_time\<close> is
  \<^verbatim>\<open>{"dates": ["2024-01-01","2024-01-02"], "counts": [2,1]}\<close>. In every state in which the
  storage layer raises no error, the response is built from the dates and the counts
  of the rows of the statement: the dates are sorted ascending (NULL first), without
  repetition, and are the dates that occur in the table; there are as many counts as
  dates; and the count at an index is the number of orders on the date at that index.
\<close>

theorem orders_over_time_response:
  assumes "storage_error orders_over_time_query w = None"
  shows "fst (handle_request ''/api/orders_over_time'' w) =
           \<lparr>status = 200,
            body = Json (J_obj
              [(''dates'', J_arr (map j_text (map fst (orders_over_time_rows (db w))))),
               (''counts'', J_arr (map J_int (map snd (orders_over_time_rows (db w)))))])\<rparr> \<and>
         sorted (map fst (orders_over_time_rows (db w))) \<and>
         distinct (map fst (orders_over_time_rows (db w))) \<and>
         set (map fst (orders_over_time_rows (db w))) = set (map order_date (orders (db w))) \<and>
         length (map fst (orders_over_time_rows (db w))) =
           length (map snd (orders_over_time_rows (db w))) \<and>
         (\<forall>i < length (map fst (orders_over_time_rows (db w))).
            map snd (orders_over_time_rows (db w)) ! i =
              int (length (filter
                (\<lambda>r. order_date r = map fst (orders_over_time_rows (db w)) ! i)
                (orders (db w))))) \<and>
         (map order_date (orders (db w)) =
            [Some ''2024-01-01'', Some ''2024-01-01'', Some ''2024-01-02''] \<or>
          map order_date (orders (db w)) =
            [Some ''2024-01-01'', Some ''2024-01-02'', Some ''2024-01-01''] \<or>
          map order_date (orders (db w)) =
            [Some ''2024-01-02'', Some ''2024-01-01'', Some ''2024-01-01''] \<longrightarrow>
          fst (handle_request ''/api/orders_over_time'' w) =
            \<lparr>status = 200,
             body = Json (J_obj
               [(''dates'', J_arr [J_str ''2024-01-01'', J_str ''2024-01-02'']),
                (''counts'', J_arr [J_int 2, J_int 1])])\<rparr>)"
proof -
  have r: "fst (handle_request ''/api/orders_over_time'' w) =
           \<lparr>status = 200,
            body = Json (J_obj
              [(''dates'', J_arr (map j_text (map fst (orders_over_time_rows (db w))))),
               (''counts'', J_arr (map J_int (map snd (orders_over_time_rows (db w)))))])\<rparr>"
    using orders_over_time_ok [OF assms]
    by (simp add: handle_request_def dispatch_routes jsonify_def)
  have s: "sorted (map fst (orders_over_time_rows (db w)))"
    by (simp add: orders_over_time_dates)
  have d: "distinct (map fst (orders_over_time_rows (db w)))"
    by (simp add: orders_over_time_dates)
  have m: "set (map fst (orders_over_time_rows (db w))) = set (map order_date (orders (db w)))"
    by (simp add: orders_over_time_dates)
  have l: "length (map fst (orders_over_time_rows (db w))) =
           length (map snd (orders_over_time_rows (db w)))"
    by simp
  have c: "\<forall>i < length (map fst (orders_over_time_rows (db w))).
            map snd (orders_over_time_rows (db w)) ! i =
              int (length (filter
                (\<lambda>r. order_date r = map fst (orders_over_time_rows (db w)) ! i)
                (orders (db w))))"
    using orders_over_time_counts [of _ "db w"] by simp
  have e: "map order_date (orders (db w)) =
            [Some ''2024-01-01'', Some ''2024-01-01'', Some ''2024-01-02''] \<or>
          map order_date (orders (db w)) =
            [Some ''2024-01-01'', Some ''2024-01-02'', Some ''2024-01-01''] \<or>
          map order_date (orders (db w)) =
            [Some ''2024-01-02'', Some ''2024-01-01'', Some ''2024-01-01''] \<longrightarrow>
          fst (handle_request ''/api/orders_over_time'' w) =
            \<lparr>status = 200,
             body = Json (J_obj
               [(''dates'', J_arr [J_str ''2024-01-01'', J_str ''2024-01-02'']),
                (''counts'', J_arr [J_int 2, J_int 1])])\<rparr>"
  proof
    assume "map order_date (orders (db w)) =
            [Some ''2024-01-01'', Some ''2024-01-01'', Some ''2024-01-02''] \<or>
          map order_date (orders (db w)) =
            [Some ''2024-01-01'', Some ''2024-01-02'', Some ''2024-01-01''] \<or>
          map order_date (orders (db w)) =
            [Some ''2024-01-02'', Some ''2024-01-01'', Some ''2024-01-01'']"
    from two_and_one [OF this january_before]
    have "orders_over_time_rows (db w) = [(Some ''2024-01-01'', 2), (Some ''2024-01-02'', 1)]"
      by (simp only: orders_over_time_rows_def)
    with r show "fst (handle_request ''/api/orders_over_time'' w) =
            \<lparr>status = 200,
             body = Json (J_obj
               [(''dates'', J_arr [J_str ''2024-01-01'', J_str ''2024-01-02'']),
                (''counts'', J_arr [J_int 2, J_int 1])])\<rparr>"
      by (simp add: j_text_def)
  qed
  from r s d m l c e show ?thesis by (intro conjI)
qed

lemma january_dates:
  "map order_date (orders (db (make_world january_orders api))) =
     [Some ''2024-01-01'', Some ''2024-01-02'', Some ''2024-01-01'']"
  by (simp add: world_of_examples january_orders_def empty_tables_def)

theorem orders_over_time_response_witness:
  "storage_error orders_over_time_query (make_world january_orders archive_down) = None \<and>
   map order_date (orders (db (make_world january_orders archive_down))) =
     [Some ''2024-01-01'', Some ''2024-01-02'', Some ''2024-01-01''] \<and>
   fst (handle_request ''/api/orders_over_time'' (make_world january_orders archive_down)) =
     \<lparr>status = 200,
      body = Json (J_obj
        [(''dates'', J_arr [J_str ''2024-01-01'', J_str ''2024-01-02'']),
         (''counts'', J_arr [J_int 2, J_int 1])])\<rparr>"
proof -
  from orders_over_time_response [OF orders_query_storage_ok(2), of archive_down]
  have "map order_date (orders (db (make_world january_orders archive_down))) =
            [Some ''2024-01-01'', Some ''2024-01-01'', Some ''2024-01-02''] \<or>
          map order_date (orders (db (make_world january_orders archive_down))) =
            [Some ''2024-01-01'', Some ''2024-01-02'', Some ''2024-01-01''] \<or>
          map order_date (orders (db (make_world january_orders archive_down))) =
            [Some ''2024-01-02'', Some ''2024-01-01'', Some ''2024-01-01''] \<longrightarrow>
          fst (handle_request ''/api/orders_over_time'' (make_world january_orders archive_down)) =
            \<lparr>status = 200,
             body = Json (J_obj
               [(''dates'', J_arr [J_str ''2024-01-01'', J_str ''2024-01-02'']),
                (''counts'', J_arr [J_int 2, J_int 1])])\<rparr>"
    by (elim conjE)
  with january_dates [of archive_down] orders_query_storage_ok(2) [of archive_down]
  show ?thesis by simp
qed

section \<open>The ten most popular products\<close>

lemma product_totals_sums:
  assumes "product_totals t = Inr rows" and "(pid, pname, total_quantity) \<in> set rows"
  shows "total_quantity = summed_quantity t pid pname"
proof -
  let ?joined = "inner_join (order_details t) (products t)
                   (\<lambda>od p. detail_product_id od = Some (product_id p))"
  let ?total = "\<lambda>((pid, pname), g).
                 case sql_sum (map (\<lambda>(od, p). quantity_ordered od) g) of
                   Inl e \<Rightarrow> Inl e
                 | Inr total_quantity \<Rightarrow> Inr (pid, pname, total_quantity)"
  let ?groups = "group_by (\<lambda>(od, p). (product_id p, product_name p)) ?joined"
  from assms(1) have "map ?total ?groups = map Inr rows"
    unfolding product_totals_def by (rule collect_rows)
  with assms(2) have "Inr (pid, pname, total_quantity) \<in> set (map ?total ?groups)"
    by simp
  then obtain k g where kg: "(k, g) \<in> set ?groups"
    and t: "?total (k, g) = Inr (pid, pname, total_quantity)"
    by auto
  from t have k: "k = (pid, pname)"
    and s: "sql_sum (map (\<lambda>(od, p). quantity_ordered od) g) = Inr total_quantity"
    by (auto split: sum.splits prod.splits)
  from group_by_member [OF kg] k
  have "g = filter (\<lambda>(od, p). (product_id p, product_name p) = (pid, pname)) ?joined"
    by (simp add: case_prod_unfold)
  also have "\<dots> = filter (\<lambda>(od, p). detail_product_id od = Some (product_id p) \<and>
                                      product_id p = pid \<and> product_name p = pname)
                    (List.product (order_details t) (products t))"
    unfolding inner_join_product filter_filter by (rule filter_cong) auto
  finally have g: "g = filter (\<lambda>(od, p). detail_product_id od = Some (product_id p) \<and>
                                      product_id p = pid \<and> product_name p = pname)
                    (List.product (order_details t) (products t))" .
  from sum_from_value [OF s [unfolded sql_sum_def]] show ?thesis
    by (simp add: summed_quantity_def g Let_def)
qed

lemma most_popular_products_limit:
  assumes "most_popular_products_rows tie t = Inr rows"
  shows "length rows \<le> 10"
    and "sorted (rev (map (\<lambda>row. snd (snd row)) rows))"
    and "\<exists>groups. product_totals t = Inr groups \<and> set rows \<subseteq> set groups"
proof -
  from assms obtain groups where groups: "product_totals t = Inr groups"
    and rows: "rows = limit 10
             (order_by_desc tie (\<lambda>(pid, pname, total_quantity). total_quantity) groups)"
    by (cases "product_totals t") (auto simp: most_popular_products_rows_def)
  show "length rows \<le> 10"
    by (simp add: rows limit_def)
  have k: "(\<lambda>row. snd (snd row)) = (\<lambda>(pid, pname, total_quantity). total_quantity)"
    by (simp add: fun_eq_iff)
  have "map (\<lambda>row. snd (snd row)) rows =
        take 10 (rev (sort (map (\<lambda>row. snd (snd row)) (engine_order tie groups))))"
    by (simp add: rows limit_def order_by_desc_def k take_map rev_map
        map_sort_key [symmetric])
  then have "rev (map (\<lambda>row. snd (snd row)) rows) =
        drop (length groups - 10) (sort (map (\<lambda>row. snd (snd row)) (engine_order tie groups)))"
    by (simp add: rev_take length_engine_order)
  then show "sorted (rev (map (\<lambda>row. snd (snd row)) rows))"
    by (simp add: sorted_wrt_drop)
  have "set rows \<subseteq> set groups"
    unfolding rows limit_def order_by_desc_def
    using set_take_subset [of 10 "rev (sort_key (\<lambda>(pid, pname, total_quantity). total_quantity)
                                        (engine_order tie groups))"]
    by (simp add: set_engine_order)
  with groups show "\<exists>groups. product_totals t = Inr groups \<and> set rows \<subseteq> set groups"
    by blast
qed

text \<open>
  Claim C5. Whenever \<^verbatim>\<open>query_db\<close> returns the rows of the statement, whatever the number
  of products that were ordered, each of the three arrays of the response of
  \<^verbatim>\<open>/api/most_popular_products\<close> has at most 10 entries; the total of every row is the sum
  of \<open>quantity_ordered\<close> over the order lines of the product of the row; and the totals
  are in descending order (a NULL total, of a product whose quantities are all NULL,
  being the least).
\<close>

theorem most_popular_products_at_most_ten:
  assumes "fst (query_db most_popular_products_query w) = Inr rows"
  shows "fst (handle_request ''/api/most_popular_products'' w) =
           \<lparr>status = 200,
            body = Json (J_obj
              [(''product_ids'', J_arr (map J_int (map fst rows))),
               (''product_names'', J_arr (map j_text (map (\<lambda>row. fst (snd row)) rows))),
               (''totals'', J_arr (map j_int (map (\<lambda>row. snd (snd row)) rows)))])\<rparr> \<and>
         length (map fst rows) \<le> 10 \<and>
         length (map (\<lambda>row. fst (snd row)) rows) \<le> 10 \<and>
         length (map (\<lambda>row. snd (snd row)) rows) \<le> 10 \<and>
         (\<forall>row \<in> set rows. snd (snd row) = summed_quantity (db w) (fst row) (fst (snd row))) \<and>
         sorted_wrt (\<lambda>x y. y \<le> x) (map (\<lambda>row. snd (snd row)) rows)"
proof -
  from query_db_result [OF assms] obtain w1 where
    q: "query_db most_popular_products_query w = (Inr rows, w1)" by blast
  have ok: "storage_error most_popular_products_query w = None"
  proof (cases "storage_error most_popular_products_query w")
    case (Some e)
    from query_db_error [OF this] q show ?thesis by simp
  qed simp
  from most_popular_products_ok [OF ok] q
  have r: "most_popular_products_rows (tie_order w) (db w) = Inr rows"
    by auto
  have 1: "fst (handle_request ''/api/most_popular_products'' w) =
           \<lparr>status = 200,
            body = Json (J_obj
              [(''product_ids'', J_arr (map J_int (map fst rows))),
               (''product_names'', J_arr (map j_text (map (\<lambda>row. fst (snd row)) rows))),
               (''totals'', J_arr (map j_int (map (\<lambda>row. snd (snd row)) rows)))])\<rparr>"
    using q by (simp add: handle_request_def dispatch_routes most_popular_products_def
        jsonify_def)
  have 2: "length rows \<le> 10"
    by (rule most_popular_products_limit(1) [OF r])
  have 3: "sorted_wrt (\<lambda>x y. y \<le> x) (map (\<lambda>row. snd (snd row)) rows)"
    using most_popular_products_limit(2) [OF r] by (simp add: sorted_wrt_rev)
  have 4: "\<forall>row \<in> set rows. snd (snd row) = summed_quantity (db w) (fst row) (fst (snd row))"
  proof
    fix row
    assume "row \<in> set rows"
    with most_popular_products_limit(3) [OF r] obtain groups where
      "product_totals (db w) = Inr groups" and "row \<in> set groups" by blast
    then show "snd (snd row) = summed_quantity (db w) (fst row) (fst (snd row))"
      using product_totals_sums [of "db w" groups "fst row" "fst (snd row)" "snd (snd row)"]
      by simp
  qed
  from 1 2 3 4 show ?thesis by simp
qed

theorem most_popular_products_at_most_ten_witness:
  "length (products eleven_products) = 11 \<and>
   fst (query_db most_popular_products_query (make_world eleven_products archive_down)) =
     Inr [(11, Some ''item'', Some 11), (10, Some ''item'', Some 10),
          (9, Some ''item'', Some 9), (8, Some ''item'', Some 8), (7, Some ''item'', Some 7),
          (6, Some ''item'', Some 6), (5, Some ''item'', Some 5), (4, Some ''item'', Some 4),
          (3, Some ''item'', Some 3), (2, Some ''item'', Some 2)] \<and>
   fst (handle_request ''/api/most_popular_products'' (make_world eleven_products archive_down)) =
     \<lparr>status = 200,
      body = Json (J_obj
        [(''product_ids'', J_arr [J_int 11, J_int 10, J_int 9, J_int 8, J_int 7, J_int 6,
                                  J_int 5, J_int 4, J_int 3, J_int 2]),
         (''product_names'', J_arr [J_str ''item'', J_str ''item'', J_str ''item'',
                                    J_str ''item'', J_str ''item'', J_str ''item'',
                                    J_str ''item'', J_str ''item'', J_str ''item'',
                                    J_str ''item'']),
         (''totals'', J_arr [J_int 11, J_int 10, J_int 9, J_int 8, J_int 7, J_int 6,
                             J_int 5, J_int 4, J_int 3, J_int 2])])\<rparr> \<and>
   summed_quantity (db (make_world eleven_products archive_down)) 11 (Some ''item'') = Some 11"
proof -
  have n: "length (products eleven_products) = 11"
    by (simp add: eleven_products_def empty_tables_def)
  from most_popular_products_at_most_ten [OF eleven_products_result, of archive_down] n
  show ?thesis
    by (simp add: eleven_products_result j_text_def j_int_def)
qed

section \<open>Payment methods\<close>








end
